theory Spec2Isabelle
  imports Main "HOL-Library.Extended_Nat"
begin

section \<open>JavaScript values and exceptions\<close>

text \<open>
  Arguments of the storage operations are typed \<^verbatim>\<open>unknown[]\<close> in the source, so a
  parameter may itself be an array. Numbers that occur (epoch seconds, counts) are
  integers.
\<close>

datatype jsval = JNull | JStr string | JNum int | JArr "jsval list"

text \<open>JavaScript truthiness, as used by \<^verbatim>\<open>!x\<close>, \<^verbatim>\<open>x || y\<close> and \<^verbatim>\<open>if (x)\<close>.\<close>

fun truthy :: "jsval \<Rightarrow> bool" where
  "truthy JNull = False"
| "truthy (JStr s) = (s \<noteq> [])"
| "truthy (JNum n) = (n \<noteq> 0)"
| "truthy (JArr xs) = True"

text \<open>A value that may be \<^verbatim>\<open>undefined\<close> (a missing property, an unset binding).\<close>

fun truthy_opt :: "jsval option \<Rightarrow> bool" where
  "truthy_opt None = False"
| "truthy_opt (Some v) = truthy v"

fun truthy_str :: "string option \<Rightarrow> bool" where
  "truthy_str None = False"
| "truthy_str (Some s) = (s \<noteq> [])"

text \<open>Everything the modelled code can throw or reject with.\<close>

datatype exn =
    SqlError string
  | StripeError string
  | FetchError string
  | JoseError string
  | TypeError string

section \<open>The embedded SQL store of one Durable Object\<close>

text \<open>
  One row of \<^verbatim>\<open>organization_settings\<close>. The TEXT columns are nullable, the two
  timestamps are epoch seconds.
\<close>

record settings_row =
  row_id :: int
  stripe_customer_id :: "string option"
  creator_user_id :: "string option"
  creator_email :: "string option"
  created_at :: int
  updated_at :: int

text \<open>\<open>None\<close>: the table has not been created yet.\<close>

type_synonym db = "settings_row list option"

type_synonym sqlrow = "(string \<times> jsval) list"

text \<open>
  \<^verbatim>\<open>SqlStorage\<close> is the platform's SQLite binding. The statements the repository issues
  are given their SQLite meaning below; every other statement text (and every other
  binding shape) is answered by \<open>exec_other\<close>, and \<open>databaseSize\<close> is the size the
  platform reports. The third argument is the clock in milliseconds.
\<close>

record SqlStorage =
  exec_other :: "string \<Rightarrow> jsval list \<Rightarrow> int \<Rightarrow> db \<Rightarrow> exn + (sqlrow list \<times> db)"
  databaseSize :: "db \<Rightarrow> nat"

text \<open>The statement texts of the source, with runs of white space collapsed.\<close>

definition SQL_CREATE_TABLE :: string where
  "SQL_CREATE_TABLE = ''CREATE TABLE IF NOT EXISTS organization_settings ( id INTEGER PRIMARY KEY AUTOINCREMENT, stripe_customer_id TEXT, creator_user_id TEXT, creator_email TEXT, created_at INTEGER NOT NULL DEFAULT (unixepoch()), updated_at INTEGER NOT NULL DEFAULT (unixepoch()) )''"

definition SQL_INSERT_DEFAULT :: string where
  "SQL_INSERT_DEFAULT = ''INSERT OR IGNORE INTO organization_settings (id) VALUES (1)''"

definition SQL_SELECT_CREATOR :: string where
  "SQL_SELECT_CREATOR = ''SELECT creator_user_id FROM organization_settings WHERE id = 1''"

definition SQL_UPDATE_CREATOR :: string where
  "SQL_UPDATE_CREATOR = ''UPDATE organization_settings SET creator_user_id = ?, creator_email = ?, updated_at = ? WHERE id = 1''"

definition SQL_SELECT_CUSTOMER :: string where
  "SQL_SELECT_CUSTOMER = ''SELECT stripe_customer_id FROM organization_settings WHERE id = 1''"

definition SQL_UPDATE_CUSTOMER :: string where
  "SQL_UPDATE_CUSTOMER = ''UPDATE organization_settings SET stripe_customer_id = ? WHERE id = 1''"

datatype stmt =
    CreateTable
  | InsertDefault
  | SelectCreator
  | UpdateCreator "string option" "string option" int
  | SelectCustomer
  | UpdateCustomer "string option"

text \<open>A binding for a TEXT column: a string or NULL.\<close>

fun text_param :: "jsval \<Rightarrow> string option option" where
  "text_param JNull = Some None"
| "text_param (JStr s) = Some (Some s)"
| "text_param _ = None"

fun text_val :: "string option \<Rightarrow> jsval" where
  "text_val None = JNull"
| "text_val (Some s) = JStr s"

text \<open>
  Which of the repository's statements a text with its bindings is, if any: the text
  must match and the bindings must be one per placeholder, of the column's type.
\<close>

definition prepare :: "string \<Rightarrow> jsval list \<Rightarrow> stmt option" where
  "prepare s ps =
     (if s = SQL_CREATE_TABLE then (case ps of [] \<Rightarrow> Some CreateTable | _ \<Rightarrow> None)
      else if s = SQL_INSERT_DEFAULT then (case ps of [] \<Rightarrow> Some InsertDefault | _ \<Rightarrow> None)
      else if s = SQL_SELECT_CREATOR then (case ps of [] \<Rightarrow> Some SelectCreator | _ \<Rightarrow> None)
      else if s = SQL_UPDATE_CREATOR then
        (case ps of
           [u, e, JNum t] \<Rightarrow>
             (case (text_param u, text_param e) of
                (Some u', Some e') \<Rightarrow> Some (UpdateCreator u' e' t)
              | _ \<Rightarrow> None)
         | _ \<Rightarrow> None)
      else if s = SQL_SELECT_CUSTOMER then (case ps of [] \<Rightarrow> Some SelectCustomer | _ \<Rightarrow> None)
      else if s = SQL_UPDATE_CUSTOMER then
        (case ps of
           [v] \<Rightarrow> (case text_param v of Some v' \<Rightarrow> Some (UpdateCustomer v') | None \<Rightarrow> None)
         | _ \<Rightarrow> None)
      else None)"

text \<open>\<^verbatim>\<open>unixepoch()\<close> and \<^verbatim>\<open>Math.floor(Date.now() / 1000)\<close>.\<close>

definition epoch :: "int \<Rightarrow> int" where
  "epoch now = now div 1000"

definition default_row :: "int \<Rightarrow> settings_row" where
  "default_row now =
     \<lparr>row_id = 1, stripe_customer_id = None, creator_user_id = None, creator_email = None,
      created_at = epoch now, updated_at = epoch now\<rparr>"

definition no_such_table :: exn where
  "no_such_table = SqlError ''no such table: organization_settings''"

definition singleton_rows :: "settings_row list \<Rightarrow> settings_row list" where
  "singleton_rows rows = filter (\<lambda>r. row_id r = 1) rows"

definition update_singleton :: "(settings_row \<Rightarrow> settings_row) \<Rightarrow> settings_row list \<Rightarrow> settings_row list" where
  "update_singleton f rows = map (\<lambda>r. if row_id r = 1 then f r else r) rows"

fun run_stmt :: "stmt \<Rightarrow> int \<Rightarrow> db \<Rightarrow> exn + (sqlrow list \<times> db)" where
  "run_stmt CreateTable now None = Inr ([], Some [])"
| "run_stmt CreateTable now (Some rows) = Inr ([], Some rows)"
| "run_stmt st now None = Inl no_such_table"
| "run_stmt InsertDefault now (Some rows) =
     (if singleton_rows rows = [] then Inr ([], Some (rows @ [default_row now]))
      else Inr ([], Some rows))"
| "run_stmt SelectCreator now (Some rows) =
     Inr (map (\<lambda>r. [(''creator_user_id'', text_val (creator_user_id r))]) (singleton_rows rows),
          Some rows)"
| "run_stmt (UpdateCreator u e t) now (Some rows) =
     Inr ([], Some (update_singleton
                      (\<lambda>r. r\<lparr>creator_user_id := u, creator_email := e, updated_at := t\<rparr>) rows))"
| "run_stmt SelectCustomer now (Some rows) =
     Inr (map (\<lambda>r. [(''stripe_customer_id'', text_val (stripe_customer_id r))]) (singleton_rows rows),
          Some rows)"
| "run_stmt (UpdateCustomer v) now (Some rows) =
     Inr ([], Some (update_singleton (\<lambda>r. r\<lparr>stripe_customer_id := v\<rparr>) rows))"

text \<open>\<^verbatim>\<open>this.sql.exec(sql, ...bindings)\<close>, with the cursor read to its end.\<close>

definition sql_exec :: "SqlStorage \<Rightarrow> string \<Rightarrow> jsval list \<Rightarrow> int \<Rightarrow> db \<Rightarrow> exn + (sqlrow list \<times> db)" where
  "sql_exec eng s ps now d =
     (case prepare s ps of
        Some st \<Rightarrow> run_stmt st now d
      | None \<Rightarrow> exec_other eng s ps now d)"

section \<open>OrganizationStorage: the per-tenant actor\<close>

record actor =
  sql :: db
  initialized :: bool

text \<open>A Durable Object that has never run: no table, flag unset.\<close>

definition new_actor :: actor where
  "new_actor = \<lparr>sql = None, initialized = False\<rparr>"

text \<open>
  Every operation returns its outcome together with the actor afterwards: what was
  written before an exception stays written.
\<close>

definition ensureInitialized :: "SqlStorage \<Rightarrow> int \<Rightarrow> actor \<Rightarrow> (exn + unit) \<times> actor" where
  "ensureInitialized eng now a =
     (if initialized a then (Inr (), a)
      else
        (case sql_exec eng SQL_CREATE_TABLE [] now (sql a) of
           Inl e \<Rightarrow> (Inl e, a)
         | Inr (_, d1) \<Rightarrow>
             (case sql_exec eng SQL_INSERT_DEFAULT [] now d1 of
                Inl e \<Rightarrow> (Inl e, a\<lparr>sql := d1\<rparr>)
              | Inr (_, d2) \<Rightarrow> (Inr (), a\<lparr>sql := d2, initialized := True\<rparr>))))"

text \<open>
  \<^verbatim>\<open>params.length === 1 && Array.isArray(params[0]) ? params[0] : params\<close>
\<close>

definition flatParams :: "jsval list \<Rightarrow> jsval list" where
  "flatParams params = (case params of [JArr xs] \<Rightarrow> xs | _ \<Rightarrow> params)"

definition query :: "SqlStorage \<Rightarrow> string \<Rightarrow> jsval list \<Rightarrow> int \<Rightarrow> actor \<Rightarrow> (exn + sqlrow list) \<times> actor" where
  "query eng s params now a =
     (case ensureInitialized eng now a of
        (Inl e, a1) \<Rightarrow> (Inl e, a1)
      | (Inr _, a1) \<Rightarrow>
          (case sql_exec eng s (flatParams params) now (sql a1) of
             Inl e \<Rightarrow> (Inl e, a1)
           | Inr (rows, d) \<Rightarrow> (Inr rows, a1\<lparr>sql := d\<rparr>)))"

text \<open>\<^verbatim>\<open>results[0] ?? null\<close>\<close>

definition queryOne :: "SqlStorage \<Rightarrow> string \<Rightarrow> jsval list \<Rightarrow> int \<Rightarrow> actor \<Rightarrow> (exn + sqlrow option) \<times> actor" where
  "queryOne eng s params now a =
     (case query eng s params now a of
        (Inl e, a1) \<Rightarrow> (Inl e, a1)
      | (Inr rows, a1) \<Rightarrow> (Inr (case rows of [] \<Rightarrow> None | r # _ \<Rightarrow> Some r), a1))"

definition exec :: "SqlStorage \<Rightarrow> string \<Rightarrow> jsval list \<Rightarrow> int \<Rightarrow> actor \<Rightarrow> (exn + unit) \<times> actor" where
  "exec eng s params now a =
     (case ensureInitialized eng now a of
        (Inl e, a1) \<Rightarrow> (Inl e, a1)
      | (Inr _, a1) \<Rightarrow>
          (case sql_exec eng s (flatParams params) now (sql a1) of
             Inl e \<Rightarrow> (Inl e, a1)
           | Inr (_, d) \<Rightarrow> (Inr (), a1\<lparr>sql := d\<rparr>)))"

text \<open>
  \<^verbatim>\<open>getStorageStats\<close>: the raw size is kept; \<^verbatim>\<open>storageMB\<close> and \<^verbatim>\<open>storagePercent\<close> are
  roundings of double-precision quotients of it and are not represented.
\<close>

definition getStorageStats :: "SqlStorage \<Rightarrow> int \<Rightarrow> actor \<Rightarrow> (exn + nat) \<times> actor" where
  "getStorageStats eng now a =
     (case ensureInitialized eng now a of
        (Inl e, a1) \<Rightarrow> (Inl e, a1)
      | (Inr _, a1) \<Rightarrow> (Inr (databaseSize eng (sql a1)), a1))"

text \<open>\<^verbatim>\<open>email || null\<close> for the optional argument \<^verbatim>\<open>email?: string\<close>.\<close>

definition or_null :: "string option \<Rightarrow> jsval" where
  "or_null email = (if truthy_str email then text_val email else JNull)"

definition setCreatorIfNotSet :: "SqlStorage \<Rightarrow> string \<Rightarrow> string option \<Rightarrow> int \<Rightarrow> actor \<Rightarrow> (exn + unit) \<times> actor" where
  "setCreatorIfNotSet eng userId email now a =
     (case ensureInitialized eng now a of
        (Inl e, a1) \<Rightarrow> (Inl e, a1)
      | (Inr _, a1) \<Rightarrow>
          (case queryOne eng SQL_SELECT_CREATOR [] now a1 of
             (Inl e, a2) \<Rightarrow> (Inl e, a2)
           | (Inr current, a2) \<Rightarrow>
               (if \<not> (case current of
                         None \<Rightarrow> False
                       | Some r \<Rightarrow> truthy_opt (map_of r ''creator_user_id''))
                then exec eng SQL_UPDATE_CREATOR [JStr userId, or_null email, JNum (epoch now)] now a2
                else (Inr (), a2))))"

section \<open>Plans and their limits\<close>

datatype PlanType = FREE | STANDARD | ENTERPRISE

text \<open>\<^verbatim>\<open>Infinity\<close> is \<open>\<infinity>\<close>.\<close>

record plan_limits =
  maxItems :: enat
  maxStorage :: enat
  features :: "string list"

fun PLAN_LIMITS :: "PlanType \<Rightarrow> plan_limits" where
  "PLAN_LIMITS FREE = \<lparr>maxItems = 10, maxStorage = 100, features = [''basic'']\<rparr>"
| "PLAN_LIMITS STANDARD = \<lparr>maxItems = 100, maxStorage = 1000, features = [''basic'', ''advanced'']\<rparr>"
| "PLAN_LIMITS ENTERPRISE =
     \<lparr>maxItems = \<infinity>, maxStorage = \<infinity>, features = [''basic'', ''advanced'', ''enterprise'']\<rparr>"

section \<open>The billing provider and the identity provider\<close>

text \<open>\<^verbatim>\<open>try { body } catch (error) { handler }\<close>\<close>

definition try_catch :: "exn + 'a \<Rightarrow> (exn \<Rightarrow> exn + 'a) \<Rightarrow> exn + 'a" where
  "try_catch body handler = (case body of Inl e \<Rightarrow> handler e | Inr v \<Rightarrow> Inr v)"

text \<open>\<^verbatim>\<open>error instanceof Error ? error.message : 'Unknown error'\<close>\<close>

fun message :: "exn \<Rightarrow> string" where
  "message (SqlError m) = m"
| "message (StripeError m) = m"
| "message (FetchError m) = m"
| "message (JoseError m) = m"
| "message (TypeError m) = m"

text \<open>A subscription, with the price id of each of its items.\<close>

record subscription =
  subscription_id :: string
  item_price_ids :: "string option list"

record customer_params =
  customer_name :: string
  customer_email :: "string option"
  metadata_organization_id :: string
  metadata_user_id :: string

text \<open>
  Stripe is an external service. \<open>create_calls\<close> records every \<^verbatim>\<open>customers.create\<close> call
  made so far; \<open>create_reply\<close> is what the service answers to a call, given the earlier
  ones (the new customer's id, or an error); \<open>active_subscriptions\<close> is what it knows
  about a customer's active subscriptions, most recent first.
\<close>

record Stripe =
  create_calls :: "customer_params list"
  create_reply :: "customer_params list \<Rightarrow> customer_params \<Rightarrow> exn + string"
  active_subscriptions :: "string \<Rightarrow> exn + subscription list"

definition customers_create :: "Stripe \<Rightarrow> customer_params \<Rightarrow> (exn + string) \<times> Stripe" where
  "customers_create stripe p =
     (create_reply stripe (create_calls stripe) p,
      stripe\<lparr>create_calls := create_calls stripe @ [p]\<rparr>)"

text \<open>\<^verbatim>\<open>stripe.subscriptions.list({ customer, status: 'active', limit })\<close>, its \<^verbatim>\<open>data\<close>.\<close>

definition subscriptions_list :: "Stripe \<Rightarrow> string \<Rightarrow> nat \<Rightarrow> exn + subscription list" where
  "subscriptions_list stripe customer limit =
     (case active_subscriptions stripe customer of
        Inl e \<Rightarrow> Inl e
      | Inr subs \<Rightarrow> Inr (take limit subs))"

text \<open>
  \<^verbatim>\<open>getSubscriptionPlanType\<close>. The price id of the first item is read and not used (the
  enterprise test is commented out), so every customer with a subscription is STANDARD.
\<close>

definition getSubscriptionPlanType :: "Stripe \<Rightarrow> string \<Rightarrow> exn + PlanType" where
  "getSubscriptionPlanType stripe customerId =
     try_catch
       (case subscriptions_list stripe customerId 1 of
          Inl e \<Rightarrow> Inl e
        | Inr data \<Rightarrow> if length data = 0 then Inr FREE else Inr STANDARD)
       (\<lambda>error. Inr FREE)"

record clerk_user =
  email_addresses :: "string list"
  first_name :: "string option"
  last_name :: "string option"

record clerk_organization =
  organization_name :: string

record 'a http_response =
  ok :: bool
  json :: "exn + 'a"

text \<open>
  The two REST lookups of the identity provider, by id and bearer secret: \<^verbatim>\<open>fetch\<close> may
  reject, and the body may fail to parse.
\<close>

record Clerk =
  fetch_organization :: "string \<Rightarrow> string \<Rightarrow> exn + clerk_organization http_response"
  fetch_user :: "string \<Rightarrow> string \<Rightarrow> exn + clerk_user http_response"

definition getClerkOrganization :: "Clerk \<Rightarrow> string \<Rightarrow> string \<Rightarrow> clerk_organization option" where
  "getClerkOrganization clerk organizationId clerkSecretKey =
     (case fetch_organization clerk organizationId clerkSecretKey of
        Inl e \<Rightarrow> None
      | Inr response \<Rightarrow>
          if ok response then (case json response of Inl e \<Rightarrow> None | Inr body \<Rightarrow> Some body)
          else None)"

definition getClerkUser :: "Clerk \<Rightarrow> string \<Rightarrow> string \<Rightarrow> clerk_user option" where
  "getClerkUser clerk uid clerkSecretKey =
     (case fetch_user clerk uid clerkSecretKey of
        Inl e \<Rightarrow> None
      | Inr response \<Rightarrow>
          if ok response then (case json response of Inl e \<Rightarrow> None | Inr body \<Rightarrow> Some body)
          else None)"

text \<open>\<^verbatim>\<open>parts.join(sep)\<close>\<close>

fun join :: "string \<Rightarrow> string list \<Rightarrow> string" where
  "join sep [] = []"
| "join sep [x] = x"
| "join sep (x # y # ys) = x @ sep @ join sep (y # ys)"

text \<open>\<^verbatim>\<open>[first_name, last_name].filter(Boolean)\<close>\<close>

definition filter_Boolean :: "string option list \<Rightarrow> string list" where
  "filter_Boolean xs = map the (filter truthy_str xs)"

text \<open>
  The name and email under which the customer is created: the part of
  \<^verbatim>\<open>getOrCreateStripeCustomer\<close> between the two store accesses.
\<close>

definition customer_identity ::
  "Clerk \<Rightarrow> string \<Rightarrow> string \<Rightarrow> string option \<Rightarrow> string \<times> string option" where
  "customer_identity clerk organizationId uid clerkSecretKey =
     (if truthy_str clerkSecretKey then
        (if organizationId = uid then
           (case getClerkUser clerk uid (the clerkSecretKey) of
              None \<Rightarrow> (organizationId, None)
            | Some user \<Rightarrow>
                (let customerEmail = (case email_addresses user of [] \<Rightarrow> None | a # _ \<Rightarrow> Some a);
                     fullName = join '' '' (filter_Boolean [first_name user, last_name user])
                 in (if fullName \<noteq> [] then fullName
                     else if truthy_str customerEmail then the customerEmail
                     else organizationId,
                     customerEmail)))
         else
           (case getClerkOrganization clerk organizationId (the clerkSecretKey) of
              None \<Rightarrow> (organizationId, None)
            | Some org \<Rightarrow>
                (if organization_name org \<noteq> [] then organization_name org else organizationId,
                 None)))
      else (organizationId, None))"

text \<open>
  The cast \<^verbatim>\<open>as Array<{ stripe_customer_id: string | null }>\<close> followed by the test
  \<^verbatim>\<open>existingOrg.length > 0 && existingOrg[0].stripe_customer_id\<close>: the customer id of the
  first row when it is neither NULL nor empty.
\<close>

definition existing_customer :: "sqlrow list \<Rightarrow> string option" where
  "existing_customer existingOrg =
     (case existingOrg of
        [] \<Rightarrow> None
      | r # _ \<Rightarrow>
          (case map_of r ''stripe_customer_id'' of
             Some (JStr s) \<Rightarrow> if s \<noteq> [] then Some s else None
           | _ \<Rightarrow> None))"

text \<open>
  \<^verbatim>\<open>getOrCreateStripeCustomer\<close>: the outcome, the billing provider afterwards and the
  tenant's actor afterwards.
\<close>

definition getOrCreateStripeCustomer ::
  "SqlStorage \<Rightarrow> Clerk \<Rightarrow> int \<Rightarrow> Stripe \<Rightarrow> actor \<Rightarrow> string \<Rightarrow> string \<Rightarrow> string option
     \<Rightarrow> (exn + string) \<times> Stripe \<times> actor" where
  "getOrCreateStripeCustomer eng clerk now stripe stub organizationId uid clerkSecretKey =
     (case query eng SQL_SELECT_CUSTOMER [] now stub of
        (Inl e, stub1) \<Rightarrow> (Inl e, stripe, stub1)
      | (Inr existingOrg, stub1) \<Rightarrow>
          (case existing_customer existingOrg of
             Some customerId \<Rightarrow> (Inr customerId, stripe, stub1)
           | None \<Rightarrow>
               (let (customerName, customerEmail) =
                      customer_identity clerk organizationId uid clerkSecretKey
                in (case customers_create stripe
                           \<lparr>customer_name = customerName, customer_email = customerEmail,
                            metadata_organization_id = organizationId, metadata_user_id = uid\<rparr> of
                      (Inl e, stripe1) \<Rightarrow> (Inl e, stripe1, stub1)
                    | (Inr customerId, stripe1) \<Rightarrow>
                        (case query eng SQL_UPDATE_CUSTOMER [JArr [JStr customerId]] now stub1 of
                           (Inl e, stub2) \<Rightarrow> (Inl e, stripe1, stub2)
                         | (Inr _, stub2) \<Rightarrow> (Inr customerId, stripe1, stub2))))))"

section \<open>The worker's environment and the request context\<close>

record Env =
  CLERK_SECRET_KEY :: "string option"
  STRIPE_SECRET_KEY :: "string option"
  INTERNAL_SECRET :: "string option"
  CLERK_ISSUER_URL :: "string option"

text \<open>The variables that the authentication middleware sets on the context.\<close>

record Variables =
  var_userId :: string
  var_orgId :: "string option"
  var_orgRole :: "string option"

section \<open>GET /api/billing/usage\<close>

record usage_counts =
  items :: nat
  storage :: nat

record usage_summary =
  planType :: PlanType
  limits :: plan_limits
  usage :: usage_counts
  canAddMore :: bool

datatype usage_body = Summary usage_summary | Failure string "string option"

text \<open>\<^verbatim>\<open>c.get('orgId') || c.get('userId')\<close>\<close>

definition tenant_of :: "Variables \<Rightarrow> string" where
  "tenant_of vars = (if truthy_str (var_orgId vars) then the (var_orgId vars) else var_userId vars)"

text \<open>
  The handler: the body and status it answers with, and the namespace of actors
  afterwards (\<^verbatim>\<open>ORGANIZATION_STORAGE.idFromName(orgId)\<close> is the actor of the tenant).
\<close>

definition usage_handler ::
  "SqlStorage \<Rightarrow> int \<Rightarrow> Stripe \<Rightarrow> Env \<Rightarrow> Variables \<Rightarrow> (string \<Rightarrow> actor)
     \<Rightarrow> (usage_body \<times> nat) \<times> (string \<Rightarrow> actor)" where
  "usage_handler eng now stripe env vars ORGANIZATION_STORAGE =
     (let organizationId = tenant_of vars in
      if organizationId = [] then ((Failure ''Authentication required'' None, 401), ORGANIZATION_STORAGE)
      else if \<not> truthy_str (STRIPE_SECRET_KEY env) then
        ((Failure ''Stripe not configured'' None, 500), ORGANIZATION_STORAGE)
      else
        (case query eng SQL_SELECT_CUSTOMER [] now (ORGANIZATION_STORAGE organizationId) of
           (Inl e, stub1) \<Rightarrow>
             ((Failure ''Failed to fetch usage'' (Some (message e)), 500),
              ORGANIZATION_STORAGE(organizationId := stub1))
         | (Inr existingOrg, stub1) \<Rightarrow>
             (case (case existing_customer existingOrg of
                      None \<Rightarrow> Inr FREE
                    | Some customerId \<Rightarrow> getSubscriptionPlanType stripe customerId) of
                Inl e \<Rightarrow>
                  ((Failure ''Failed to fetch usage'' (Some (message e)), 500),
                   ORGANIZATION_STORAGE(organizationId := stub1))
              | Inr plan \<Rightarrow>
                  (let lim = PLAN_LIMITS plan;
                       currentUsage = \<lparr>items = 0, storage = 0\<rparr>
                   in ((Summary \<lparr>planType = plan, limits = lim, usage = currentUsage,
                                  canAddMore = (enat (items currentUsage) < maxItems lim)\<rparr>, 200),
                       ORGANIZATION_STORAGE(organizationId := stub1))))))"

section \<open>Tokens\<close>

text \<open>
  The JOSE library is an external collaborator. Its compact serialization and its
  HMAC are kept symbolic: a header value is either the serialization of a claim set
  signed under an algorithm with a key, or some other text; a signature verifies under
  exactly the key it was made with.
\<close>

record internal_claims =
  claim_orgId :: string
  claim_userId :: string
  claim_iat :: "int option"
  claim_exp :: "int option"

datatype compact_jws = Signed string internal_claims string | Malformed string

datatype timespan = Seconds nat | Minutes nat | Hours nat

fun secs :: "timespan \<Rightarrow> int" where
  "secs (Seconds n) = int n"
| "secs (Minutes n) = 60 * int n"
| "secs (Hours n) = 3600 * int n"

text \<open>\<^verbatim>\<open>new SignJWT({ orgId, userId })\<close>\<close>

definition SignJWT :: "string \<Rightarrow> string \<Rightarrow> internal_claims" where
  "SignJWT organizationId uid =
     \<lparr>claim_orgId = organizationId, claim_userId = uid, claim_iat = None, claim_exp = None\<rparr>"

text \<open>\<^verbatim>\<open>.setIssuedAt()\<close> and \<^verbatim>\<open>.setExpirationTime(period)\<close> each read the clock.\<close>

definition setIssuedAt :: "int \<Rightarrow> internal_claims \<Rightarrow> internal_claims" where
  "setIssuedAt now c = c\<lparr>claim_iat := Some (epoch now)\<rparr>"

definition setExpirationTime :: "timespan \<Rightarrow> int \<Rightarrow> internal_claims \<Rightarrow> internal_claims" where
  "setExpirationTime period now c = c\<lparr>claim_exp := Some (epoch now + secs period)\<rparr>"

definition sign :: "string \<Rightarrow> string \<Rightarrow> internal_claims \<Rightarrow> compact_jws" where
  "sign alg secretKey c = Signed alg c secretKey"

text \<open>
  \<^verbatim>\<open>jwtVerify(token, secretKey)\<close> with a symmetric key: the serialization must parse, the
  algorithm must be an HMAC one, the signature must verify, and an \<^verbatim>\<open>exp\<close> claim must lie
  after the current epoch second.
\<close>

definition jwtVerify :: "compact_jws \<Rightarrow> string \<Rightarrow> int \<Rightarrow> exn + internal_claims" where
  "jwtVerify token secretKey now =
     (case token of
        Malformed s \<Rightarrow> Inl (JoseError ''Invalid Compact JWS'')
      | Signed alg c k \<Rightarrow>
          if alg \<notin> set [''HS256'', ''HS384'', ''HS512''] then
            Inl (JoseError ''alg not supported for this key'')
          else if k \<noteq> secretKey then Inl (JoseError ''signature verification failed'')
          else
            (case claim_exp c of
               None \<Rightarrow> Inr c
             | Some e \<Rightarrow>
                 if e \<le> epoch now then Inl (JoseError ''exp claim timestamp check failed'')
                 else Inr c))"

definition DEFAULT_INTERNAL_SECRET :: string where
  "DEFAULT_INTERNAL_SECRET = ''development-secret-key''"

text \<open>\<^verbatim>\<open>env.INTERNAL_SECRET || DEFAULT_INTERNAL_SECRET\<close>\<close>

definition internal_secret :: "Env \<Rightarrow> string" where
  "internal_secret env =
     (if truthy_str (INTERNAL_SECRET env) then the (INTERNAL_SECRET env)
      else DEFAULT_INTERNAL_SECRET)"

text \<open>
  \<^verbatim>\<open>generateInternalToken\<close>; \<open>now_iat\<close> and \<open>now_exp\<close> are the clock at \<^verbatim>\<open>setIssuedAt\<close>
  and at \<^verbatim>\<open>setExpirationTime\<close>.
\<close>

definition generateInternalToken :: "Env \<Rightarrow> int \<Rightarrow> int \<Rightarrow> string \<Rightarrow> string \<Rightarrow> compact_jws" where
  "generateInternalToken env now_iat now_exp organizationId uid =
     sign ''HS256'' (internal_secret env)
       (setExpirationTime (Hours 1) now_exp (setIssuedAt now_iat (SignJWT organizationId uid)))"

section \<open>The authentication middleware\<close>

record ClerkJWTPayload =
  sub :: string
  org_id :: "string option"
  org_role :: "string option"

record request =
  path :: string
  authorization :: "string option"
  x_internal_token :: "compact_jws option"

text \<open>
  What a middleware answers: its own JSON error with a status, or what the handlers
  after it answered.
\<close>

datatype 'r reply = JsonError string nat | Downstream 'r

definition startsWith :: "string \<Rightarrow> string \<Rightarrow> bool" where
  "startsWith s p = (take (length p) s = p)"

text \<open>\<^verbatim>\<open>x || null\<close>\<close>

definition or_none :: "string option \<Rightarrow> string option" where
  "or_none x = (if truthy_str x then x else None)"

text \<open>
  \<^verbatim>\<open>clerkAuth\<close>. \<open>verify token issuer\<close> stands for fetching the remote key set of the
  issuer and \<^verbatim>\<open>jwtVerify(token, JWKS, { issuer })\<close>; \<open>next\<close> is the rest of the chain,
  which may throw. The result is the reply and the context variables, if they were set.
\<close>

definition clerkAuth ::
  "(string \<Rightarrow> string \<Rightarrow> exn + ClerkJWTPayload) \<Rightarrow> Env \<Rightarrow> request
     \<Rightarrow> (Variables \<Rightarrow> exn + 'r) \<Rightarrow> 'r reply \<times> Variables option" where
  "clerkAuth verify env req next =
     (case authorization req of
        None \<Rightarrow> (JsonError ''Unauthorized: Missing or invalid Authorization header'' 401, None)
      | Some authHeader \<Rightarrow>
          if \<not> startsWith authHeader ''Bearer '' then
            (JsonError ''Unauthorized: Missing or invalid Authorization header'' 401, None)
          else
            (let token = drop 7 authHeader in
             if \<not> truthy_str (CLERK_ISSUER_URL env) then
               (JsonError ''Server configuration error'' 500, None)
             else
               (case verify token (the (CLERK_ISSUER_URL env)) of
                  Inl error \<Rightarrow> (JsonError ''Unauthorized: Invalid token'' 401, None)
                | Inr clerkPayload \<Rightarrow>
                    (let vars = \<lparr>var_userId = sub clerkPayload,
                                 var_orgId = or_none (org_id clerkPayload),
                                 var_orgRole = or_none (org_role clerkPayload)\<rparr>
                     in (case next vars of
                           Inl error \<Rightarrow> (JsonError ''Unauthorized: Invalid token'' 401, Some vars)
                         | Inr r \<Rightarrow> (Downstream r, Some vars))))))"

text \<open>\<^verbatim>\<open>!internalToken\<close>: the header is absent or empty.\<close>

fun no_token :: "compact_jws option \<Rightarrow> bool" where
  "no_token None = True"
| "no_token (Some (Malformed s)) = (s = [])"
| "no_token (Some (Signed alg c k)) = False"

definition internalAuth ::
  "Env \<Rightarrow> int \<Rightarrow> request \<Rightarrow> (Variables \<Rightarrow> exn + 'r) \<Rightarrow> 'r reply \<times> Variables option" where
  "internalAuth env now req next =
     (if no_token (x_internal_token req) then
        (JsonError ''Unauthorized: Missing internal token'' 401, None)
      else
        (case jwtVerify (the (x_internal_token req)) (internal_secret env) now of
           Inl error \<Rightarrow> (JsonError ''Unauthorized: Invalid internal token'' 401, None)
         | Inr payload \<Rightarrow>
             (let vars = \<lparr>var_userId = claim_userId payload,
                          var_orgId = Some (claim_orgId payload),
                          var_orgRole = None\<rparr>
              in (case next vars of
                    Inl error \<Rightarrow> (JsonError ''Unauthorized: Invalid internal token'' 401, Some vars)
                  | Inr r \<Rightarrow> (Downstream r, Some vars)))))"


section \<open>Vocabulary for the properties of the actor\<close>

text \<open>
  A concrete engine for the examples: it deletes all rows on
  \<^verbatim>\<open>DELETE FROM organization_settings\<close> and rejects every other text it is asked about,
  as SQLite rejects a text that is not SQL.
\<close>

definition sqlite_storage :: SqlStorage where
  "sqlite_storage =
     \<lparr>exec_other = (\<lambda>s ps now d.
        if s = ''DELETE FROM organization_settings'' \<and> ps = [] then
          (case d of None \<Rightarrow> Inl no_such_table | Some rows \<Rightarrow> Inr ([], Some []))
        else Inl (SqlError ''SQL error'')),
      databaseSize = (\<lambda>d. case d of None \<Rightarrow> 0 | Some rows \<Rightarrow> 4096 * (1 + length rows))\<rparr>"

text \<open>The rows that the two statements of \<open>ensureInitialized\<close> leave behind.\<close>

definition init_rows :: "int \<Rightarrow> db \<Rightarrow> settings_row list" where
  "init_rows now d =
     (case d of
        None \<Rightarrow> [default_row now]
      | Some rows \<Rightarrow> if singleton_rows rows = [] then rows @ [default_row now] else rows)"

definition initialize :: "int \<Rightarrow> actor \<Rightarrow> actor" where
  "initialize now a =
     (if initialized a then a else a\<lparr>sql := Some (init_rows now (sql a)), initialized := True\<rparr>)"

text \<open>The TenantRecord: the first row with the singleton id, if there is one.\<close>

definition record_of :: "actor \<Rightarrow> settings_row option" where
  "record_of a =
     (case sql a of
        None \<Rightarrow> None
      | Some rows \<Rightarrow> (case singleton_rows rows of [] \<Rightarrow> None | r # _ \<Rightarrow> Some r))"

text \<open>
  A creator is recorded when the stored \<^verbatim>\<open>creator_user_id\<close> passes the source's own test
  \<^verbatim>\<open>current?.creator_user_id\<close>: it is neither NULL nor the empty string.
\<close>

definition creator_recorded :: "actor \<Rightarrow> bool" where
  "creator_recorded a =
     (case record_of a of None \<Rightarrow> False | Some r \<Rightarrow> truthy_str (creator_user_id r))"

text \<open>
  An actor whose flag is set has run \<open>ensureInitialized\<close>, so its TenantRecord exists
  (the repository issues no statement that deletes it).
\<close>

definition actor_ok :: "actor \<Rightarrow> bool" where
  "actor_ok a = (initialized a \<longrightarrow> record_of a \<noteq> None)"

definition email_or_null :: "string option \<Rightarrow> string option" where
  "email_or_null email = (if truthy_str email then email else None)"

definition write_creator :: "string \<Rightarrow> string option \<Rightarrow> int \<Rightarrow> settings_row \<Rightarrow> settings_row" where
  "write_creator userId email now r =
     r\<lparr>creator_user_id := Some userId, creator_email := email_or_null email,
       updated_at := epoch now\<rparr>"

text \<open>\<^verbatim>\<open>params.length === 1 && Array.isArray(params[0])\<close>\<close>

definition lone_array :: "jsval list \<Rightarrow> bool" where
  "lone_array params = (case params of [JArr xs] \<Rightarrow> True | _ \<Rightarrow> False)"

text \<open>Exactly one row, and it has the singleton id.\<close>

definition one_record :: "actor \<Rightarrow> bool" where
  "one_record a = (case sql a of Some [r] \<Rightarrow> row_id r = 1 | _ \<Rightarrow> False)"

text \<open>A store that holds no row other than the singleton: no table, no row, or that row.\<close>

definition stray_free :: "db \<Rightarrow> bool" where
  "stray_free d =
     (case d of None \<Rightarrow> True | Some [] \<Rightarrow> True | Some [r] \<Rightarrow> row_id r = 1 | _ \<Rightarrow> False)"

section \<open>Vocabulary for the properties of billing and authentication\<close>

text \<open>
  The billing customer of a tenant: the \<^verbatim>\<open>stripe_customer_id\<close> of its TenantRecord when
  it passes the source's test, that is, when it is neither NULL nor empty.
\<close>

definition customer_of :: "actor \<Rightarrow> string option" where
  "customer_of a = (case record_of a of None \<Rightarrow> None | Some r \<Rightarrow> or_none (stripe_customer_id r))"

text \<open>
  The store after \<^verbatim>\<open>UPDATE organization_settings SET stripe_customer_id = ? WHERE id = 1\<close>.
\<close>

definition store_customer :: "string \<Rightarrow> actor \<Rightarrow> actor" where
  "store_customer customerId a =
     a\<lparr>sql := map_option (update_singleton (\<lambda>r. r\<lparr>stripe_customer_id := Some customerId\<rparr>)) (sql a)\<rparr>"

text \<open>
  The argument of \<^verbatim>\<open>stripe.customers.create\<close>.
\<close>

definition new_customer :: "Clerk \<Rightarrow> string \<Rightarrow> string \<Rightarrow> string option \<Rightarrow> customer_params" where
  "new_customer clerk organizationId uid clerkSecretKey =
     \<lparr>customer_name = fst (customer_identity clerk organizationId uid clerkSecretKey),
      customer_email = snd (customer_identity clerk organizationId uid clerkSecretKey),
      metadata_organization_id = organizationId, metadata_user_id = uid\<rparr>"

text \<open>
  \<^verbatim>\<open>authHeader?.startsWith('Bearer ')\<close>
\<close>

definition bearer :: "string option \<Rightarrow> bool" where
  "bearer h = (case h of None \<Rightarrow> False | Some v \<Rightarrow> startsWith v ''Bearer '')"

text \<open>
  Concrete collaborators for the examples: a billing provider that is unreachable, one
  that answers (every new customer is \<^verbatim>\<open>cus_abc\<close>, only \<^verbatim>\<open>cus_paid\<close> has a subscription), an
  identity provider that is unreachable, a token verifier that accepts one token of one
  issuer, an environment, a context, and handlers that answer with the tenant id.
\<close>

definition stripe_down :: Stripe where
  "stripe_down =
     \<lparr>create_calls = [],
      create_reply = (\<lambda>calls p. Inl (StripeError ''connection refused'')),
      active_subscriptions = (\<lambda>c. Inl (StripeError ''connection refused''))\<rparr>"

definition stripe_test :: Stripe where
  "stripe_test =
     \<lparr>create_calls = [],
      create_reply = (\<lambda>calls p. Inr ''cus_abc''),
      active_subscriptions =
        (\<lambda>c. if c = ''cus_paid'' then Inr [\<lparr>subscription_id = ''sub_1'', item_price_ids = [Some ''price_1'']\<rparr>]
             else Inr [])\<rparr>"

definition clerk_down :: Clerk where
  "clerk_down =
     \<lparr>fetch_organization = (\<lambda>i k. Inl (FetchError ''network'')),
      fetch_user = (\<lambda>i k. Inl (FetchError ''network''))\<rparr>"

definition verify_test :: "string \<Rightarrow> string \<Rightarrow> exn + ClerkJWTPayload" where
  "verify_test token issuer =
     (if token = ''good'' \<and> issuer = ''https://clerk.example''
      then Inr \<lparr>sub = ''user_1'', org_id = Some ''org_1'', org_role = Some ''org:admin''\<rparr>
      else Inl (JoseError ''signature verification failed''))"

definition env_test :: Env where
  "env_test =
     \<lparr>CLERK_SECRET_KEY = None, STRIPE_SECRET_KEY = Some ''sk_test'', INTERNAL_SECRET = Some ''s3cret'',
      CLERK_ISSUER_URL = Some ''https://clerk.example''\<rparr>"

definition vars_test :: Variables where
  "vars_test = \<lparr>var_userId = ''user_1'', var_orgId = Some ''org_1'', var_orgRole = Some ''org:admin''\<rparr>"

definition echo :: "Variables \<Rightarrow> exn + string" where
  "echo vars = Inr (tenant_of vars)"


section \<open>Properties of the storage actor\<close>

subsection \<open>The statements of the repository\<close>

lemma prepare_create: "prepare SQL_CREATE_TABLE [] = Some CreateTable"
  by (simp add: prepare_def)

lemma prepare_insert: "prepare SQL_INSERT_DEFAULT [] = Some InsertDefault"
  by (simp add: prepare_def SQL_CREATE_TABLE_def SQL_INSERT_DEFAULT_def)

lemma prepare_select_creator: "prepare SQL_SELECT_CREATOR [] = Some SelectCreator"
  by (simp add: prepare_def SQL_CREATE_TABLE_def SQL_INSERT_DEFAULT_def SQL_SELECT_CREATOR_def)

lemma prepare_update_creator:
  "prepare SQL_UPDATE_CREATOR [JStr u, text_val e, JNum t] = Some (UpdateCreator (Some u) e t)"
  by (cases e) (simp_all add: prepare_def SQL_CREATE_TABLE_def SQL_INSERT_DEFAULT_def SQL_SELECT_CREATOR_def
      SQL_UPDATE_CREATOR_def)

lemma prepare_update_creator_arity:
  "prepare SQL_UPDATE_CREATOR [JArr xs] = None"
  by (simp add: prepare_def SQL_CREATE_TABLE_def SQL_INSERT_DEFAULT_def SQL_SELECT_CREATOR_def
      SQL_UPDATE_CREATOR_def)

lemma prepare_select_customer: "prepare SQL_SELECT_CUSTOMER [] = Some SelectCustomer"
  by (simp add: prepare_def SQL_CREATE_TABLE_def SQL_INSERT_DEFAULT_def SQL_SELECT_CREATOR_def
      SQL_UPDATE_CREATOR_def SQL_SELECT_CUSTOMER_def)

lemma prepare_update_customer: "prepare SQL_UPDATE_CUSTOMER [JStr v] = Some (UpdateCustomer (Some v))"
  by (simp add: prepare_def SQL_CREATE_TABLE_def SQL_INSERT_DEFAULT_def SQL_SELECT_CREATOR_def
      SQL_UPDATE_CREATOR_def SQL_SELECT_CUSTOMER_def SQL_UPDATE_CUSTOMER_def)

subsection \<open>Initialization\<close>

lemma ensureInitialized_fresh:
  "\<not> initialized a \<Longrightarrow>
     ensureInitialized eng now a = (Inr (), a\<lparr>sql := Some (init_rows now (sql a)), initialized := True\<rparr>)"
  by (cases "sql a")
     (simp_all add: ensureInitialized_def sql_exec_def prepare_create prepare_insert init_rows_def
        singleton_rows_def)

lemma ensureInitialized_done: "initialized a \<Longrightarrow> ensureInitialized eng now a = (Inr (), a)"
  by (simp add: ensureInitialized_def)

lemma ensureInitialized_eq: "ensureInitialized eng now a = (Inr (), initialize now a)"
  by (simp add: initialize_def ensureInitialized_fresh ensureInitialized_done)

lemma initialized_initialize [simp]: "initialized (initialize now a)"
  by (simp add: initialize_def)

lemma initialize_idem [simp]: "initialize now' (initialize now a) = initialize now a"
  by (simp add: initialize_def)

lemma init_rows_present:
  "singleton_rows rows \<noteq> [] \<Longrightarrow> init_rows now (Some rows) = rows"
  by (simp add: init_rows_def)

lemma singleton_rows_init: "singleton_rows (init_rows now d) \<noteq> []"
  by (cases d) (simp_all add: init_rows_def singleton_rows_def default_row_def)

lemma singleton_rows_update:
  "(\<And>r. row_id (f r) = row_id r) \<Longrightarrow>
     singleton_rows (update_singleton f rows) = map f (singleton_rows rows)"
  by (induction rows) (simp_all add: singleton_rows_def update_singleton_def)

lemma row_id_default [simp]: "row_id (default_row now) = 1"
  by (simp add: default_row_def)

lemma query_initialized:
  "initialized a \<Longrightarrow>
     query eng s ps now a =
       (case sql_exec eng s (flatParams ps) now (sql a) of
          Inl e \<Rightarrow> (Inl e, a)
        | Inr (rows, d) \<Rightarrow> (Inr rows, a\<lparr>sql := d\<rparr>))"
  by (simp add: query_def ensureInitialized_done)

lemma exec_initialized:
  "initialized a \<Longrightarrow>
     exec eng s ps now a =
       (case sql_exec eng s (flatParams ps) now (sql a) of
          Inl e \<Rightarrow> (Inl e, a)
        | Inr (rows, d) \<Rightarrow> (Inr (), a\<lparr>sql := d\<rparr>))"
  by (simp add: exec_def ensureInitialized_done split: sum.splits)

lemma query_via_init: "query eng s ps now a = query eng s ps now (initialize now a)"
  by (simp add: query_def ensureInitialized_eq)

lemma exec_via_init: "exec eng s ps now a = exec eng s ps now (initialize now a)"
  by (simp add: exec_def ensureInitialized_eq)

lemma flatParams_plain [simp]:
  "flatParams [] = []" "flatParams [JStr u, e, t] = [JStr u, e, t]" "flatParams [JStr u] = [JStr u]"
  "flatParams [JArr xs] = xs"
  by (simp_all add: flatParams_def)

lemma flatParams_not_lone: "\<not> lone_array ps \<Longrightarrow> flatParams ps = ps"
  by (auto simp: lone_array_def flatParams_def split: list.splits jsval.splits)

subsection \<open>Creator attribution\<close>

lemma or_null_text_val: "or_null e = text_val (email_or_null e)"
  by (cases e) (simp_all add: or_null_def email_or_null_def)

lemma setCreator_initialized:
  assumes "initialized a" "sql a = Some rows"
  shows "setCreatorIfNotSet eng userId email now a =
           (Inr (),
            if (case singleton_rows rows of [] \<Rightarrow> False | r # _ \<Rightarrow> truthy_str (creator_user_id r))
            then a
            else a\<lparr>sql := Some (update_singleton (write_creator userId email now) rows)\<rparr>)"
proof -
  have sel: "queryOne eng SQL_SELECT_CREATOR [] now a =
               (Inr (case singleton_rows rows of [] \<Rightarrow> None
                     | r # _ \<Rightarrow> Some [(''creator_user_id'', text_val (creator_user_id r))]), a)"
    using assms
    by (simp add: queryOne_def query_initialized sql_exec_def prepare_select_creator
          split: list.splits)
  have upd: "exec eng SQL_UPDATE_CREATOR [JStr userId, or_null email, JNum (epoch now)] now a =
               (Inr (), a\<lparr>sql := Some (update_singleton (write_creator userId email now) rows)\<rparr>)"
    using assms
    by (simp add: exec_initialized sql_exec_def or_null_text_val prepare_update_creator
          write_creator_def [abs_def])
  have tr: "\<And>v. truthy (text_val v) = truthy_str v"
    subgoal for v by (cases v) simp_all
    done
  show ?thesis
    using assms(1)
    by (simp add: setCreatorIfNotSet_def ensureInitialized_done sel upd tr split: list.splits)
qed

lemma setCreator_via_init:
  "setCreatorIfNotSet eng userId email now a =
     setCreatorIfNotSet eng userId email now (initialize now a)"
  by (simp add: setCreatorIfNotSet_def ensureInitialized_eq)

lemma rows_of_ok:
  assumes "actor_ok a"
  shows "\<exists>rows. sql (initialize now a) = Some rows \<and> singleton_rows rows \<noteq> []"
proof (cases "initialized a")
  case True
  with assms show ?thesis
    by (auto simp: actor_ok_def record_of_def initialize_def split: option.splits list.splits)
next
  case False
  then show ?thesis by (simp add: initialize_def singleton_rows_init)
qed

lemma creator_recorded_initialize:
  "creator_recorded (initialize now a) = creator_recorded a"
  by (auto simp: creator_recorded_def record_of_def initialize_def init_rows_def singleton_rows_def
      default_row_def split: option.splits list.splits)

lemma creator_recorded_rows:
  "sql a = Some rows \<Longrightarrow>
     creator_recorded a = (case singleton_rows rows of [] \<Rightarrow> False | r # _ \<Rightarrow> truthy_str (creator_user_id r))"
  by (simp add: creator_recorded_def record_of_def split: list.splits)

lemma setCreator_ok:
  assumes "actor_ok a"
  shows "\<exists>rows. sql (initialize now a) = Some rows \<and> singleton_rows rows \<noteq> [] \<and>
           setCreatorIfNotSet eng userId email now a =
             (Inr (), if creator_recorded a then initialize now a
                      else (initialize now a)\<lparr>sql := Some (update_singleton (write_creator userId email now) rows)\<rparr>)"
proof -
  from rows_of_ok [OF assms, of now] obtain rows
    where r: "sql (initialize now a) = Some rows" "singleton_rows rows \<noteq> []" by blast
  have "setCreatorIfNotSet eng userId email now a =
          setCreatorIfNotSet eng userId email now (initialize now a)"
    by (rule setCreator_via_init)
  also have "\<dots> = (Inr (), if creator_recorded (initialize now a) then initialize now a
                      else (initialize now a)\<lparr>sql := Some (update_singleton (write_creator userId email now) rows)\<rparr>)"
    using setCreator_initialized [OF initialized_initialize r(1), of eng userId email now]
      creator_recorded_rows [OF r(1)] by simp
  finally show ?thesis using r by (simp add: creator_recorded_initialize)
qed

lemma row_id_write_creator [simp]: "row_id (write_creator u e now r) = row_id r"
  by (simp add: write_creator_def)

lemma record_of_written:
  assumes "sql a = Some rows" "singleton_rows rows \<noteq> []"
  shows "\<exists>r. record_of (a\<lparr>sql := Some (update_singleton (write_creator u e now) rows)\<rparr>)
               = Some (write_creator u e now r) \<and> record_of a = Some r"
  using assms
  by (cases "singleton_rows rows") (simp_all add: record_of_def singleton_rows_update)

subsection \<open>One record\<close>

lemma one_record_initialize:
  "stray_free (sql a) \<Longrightarrow> \<not> initialized a \<Longrightarrow> one_record (initialize now a)"
  by (auto simp: stray_free_def one_record_def initialize_def init_rows_def singleton_rows_def
      default_row_def split: option.splits list.splits)

lemma one_record_rows:
  "one_record a \<Longrightarrow> \<exists>r. sql a = Some [r] \<and> row_id r = 1"
  by (auto simp: one_record_def split: option.splits list.splits)

lemma run_stmt_one_record:
  "row_id r = 1 \<Longrightarrow> \<exists>out r'. run_stmt st now (Some [r]) = Inr (out, Some [r']) \<and> row_id r' = 1"
  by (cases st) (simp_all add: singleton_rows_def update_singleton_def)

lemma initialize_one_record: "one_record a \<Longrightarrow> initialize now (a\<lparr>initialized := False\<rparr>) = a\<lparr>initialized := True\<rparr>"
  by (auto simp: one_record_def initialize_def init_rows_def singleton_rows_def
      split: option.splits list.splits)

lemma setCreator_one_record:
  assumes "initialized a" "one_record a"
  shows "\<exists>a'. setCreatorIfNotSet eng u e now a = (Inr (), a') \<and> one_record a' \<and> initialized a'"
proof -
  from assms(2) obtain r where r: "sql a = Some [r]" "row_id r = 1"
    using one_record_rows by blast
  show ?thesis
    using assms(1) r
    by (simp add: setCreator_initialized [OF assms(1) r(1)] one_record_def singleton_rows_def
        update_singleton_def write_creator_def)
qed

lemma query_one_record:
  assumes "initialized a" "one_record a" "prepare s (flatParams ps) = Some st"
  shows "\<exists>rows a'. query eng s ps now a = (Inr rows, a') \<and> one_record a'"
proof -
  from assms(2) obtain r where r: "sql a = Some [r]" "row_id r = 1"
    using one_record_rows by blast
  from run_stmt_one_record [OF r(2), of st now]
  obtain out r' where "run_stmt st now (Some [r]) = Inr (out, Some [r'])" "row_id r' = 1"
    by blast
  then show ?thesis
    using assms(1,3) r by (simp add: query_initialized sql_exec_def one_record_def)
qed

lemma exec_one_record:
  assumes "initialized a" "one_record a" "prepare s (flatParams ps) = Some st"
  shows "\<exists>a'. exec eng s ps now a = (Inr (), a') \<and> one_record a'"
proof -
  from assms(2) obtain r where r: "sql a = Some [r]" "row_id r = 1"
    using one_record_rows by blast
  from run_stmt_one_record [OF r(2), of st now]
  obtain out r' where "run_stmt st now (Some [r]) = Inr (out, Some [r'])" "row_id r' = 1"
    by blast
  then show ?thesis
    using assms(1,3) r by (simp add: exec_initialized sql_exec_def one_record_def)
qed

section \<open>Properties of billing reconciliation\<close>

lemma customer_of_initialize: "customer_of (initialize now a) = customer_of a"
  by (auto simp: customer_of_def record_of_def initialize_def init_rows_def singleton_rows_def
      default_row_def or_none_def split: option.splits list.splits)

lemma select_customer:
  assumes "actor_ok a"
  shows "\<exists>rows. query eng SQL_SELECT_CUSTOMER [] now a = (Inr rows, initialize now a)
              \<and> existing_customer rows = customer_of a"
proof -
  from rows_of_ok [OF assms, of now] obtain rows
    where r: "sql (initialize now a) = Some rows" "singleton_rows rows \<noteq> []" by blast
  have q: "query eng SQL_SELECT_CUSTOMER [] now a =
             (Inr (map (\<lambda>r. [(''stripe_customer_id'', text_val (stripe_customer_id r))]) (singleton_rows rows)),
              initialize now a)"
    using r(1) by (simp add: query_via_init [of eng _ _ now a] query_initialized sql_exec_def
        prepare_select_customer)
  have "existing_customer (map (\<lambda>r. [(''stripe_customer_id'', text_val (stripe_customer_id r))]) (singleton_rows rows))
          = customer_of (initialize now a)"
    using r
    apply (cases "singleton_rows rows")
     apply simp
    subgoal for r0 rs
      by (cases "stripe_customer_id r0")
         (simp_all add: existing_customer_def customer_of_def record_of_def or_none_def)
    done
  with q show ?thesis by (simp add: customer_of_initialize)
qed

lemma update_customer:
  assumes "initialized a" "sql a = Some rows"
  shows "query eng SQL_UPDATE_CUSTOMER [JArr [JStr c]] now a = (Inr [], store_customer c a)"
  using assms
  by (simp add: query_initialized sql_exec_def prepare_update_customer store_customer_def)

lemma getOrCreate_char:
  assumes "actor_ok a"
  shows "getOrCreateStripeCustomer eng clerk now stripe a organizationId uid key =
           (case customer_of a of
              Some c \<Rightarrow> (Inr c, stripe, initialize now a)
            | None \<Rightarrow>
                (case create_reply stripe (create_calls stripe) (new_customer clerk organizationId uid key) of
                   Inl e \<Rightarrow> (Inl e, stripe\<lparr>create_calls := create_calls stripe @ [new_customer clerk organizationId uid key]\<rparr>,
                             initialize now a)
                 | Inr c \<Rightarrow> (Inr c, stripe\<lparr>create_calls := create_calls stripe @ [new_customer clerk organizationId uid key]\<rparr>,
                             store_customer c (initialize now a))))"
proof -
  from select_customer [OF assms, of eng now] obtain rows where
    q: "query eng SQL_SELECT_CUSTOMER [] now a = (Inr rows, initialize now a)"
    and e: "existing_customer rows = customer_of a" by blast
  from rows_of_ok [OF assms, of now] obtain rs
    where r: "sql (initialize now a) = Some rs" by blast
  have u: "query eng SQL_UPDATE_CUSTOMER [JArr [JStr c]] now (initialize now a)
             = (Inr [], store_customer c (initialize now a))" for c
    using update_customer [OF initialized_initialize r] by simp
  show ?thesis
    by (simp add: getOrCreateStripeCustomer_def q e u customers_create_def new_customer_def
        split: option.splits sum.splits prod.splits)
qed

lemma customer_of_store:
  assumes "actor_ok a" "initialized a" "c \<noteq> []"
  shows "customer_of (store_customer c a) = Some c" "actor_ok (store_customer c a)"
    "initialize now (store_customer c a) = store_customer c a"
proof -
  from assms(1,2) obtain rows where r: "sql a = Some rows" "singleton_rows rows \<noteq> []"
    by (auto simp: actor_ok_def record_of_def split: option.splits list.splits)
  have s: "singleton_rows (update_singleton (\<lambda>r. r\<lparr>stripe_customer_id := Some c\<rparr>) rows)
         = map (\<lambda>r. r\<lparr>stripe_customer_id := Some c\<rparr>) (singleton_rows rows)"
    by (rule singleton_rows_update) simp
  show "customer_of (store_customer c a) = Some c"
    using r assms(3)
    by (cases "singleton_rows rows")
       (simp_all add: customer_of_def record_of_def store_customer_def s or_none_def)
  show "actor_ok (store_customer c a)"
    using r
    by (cases "singleton_rows rows")
       (simp_all add: actor_ok_def record_of_def store_customer_def s)
  show "initialize now (store_customer c a) = store_customer c a"
    using assms(2) by (simp add: initialize_def store_customer_def)
qed

lemma actor_ok_initialize: "actor_ok a \<Longrightarrow> actor_ok (initialize now a)"
  using rows_of_ok [of a now]
  by (auto simp: actor_ok_def record_of_def split: option.splits list.splits)

lemma getSubscriptionPlanType_total: "\<exists>plan. getSubscriptionPlanType stripe customerId = Inr plan"
  by (cases "active_subscriptions stripe customerId")
     (simp_all add: getSubscriptionPlanType_def subscriptions_list_def try_catch_def)

lemma maxItems_positive: "maxItems (PLAN_LIMITS plan) \<noteq> 0"
  by (cases plan) simp_all

lemma usage_handler_summary:
  assumes "usage_handler eng now stripe env vars ns = ((Summary p, st), ns')"
  shows "st = 200 \<and> limits p = PLAN_LIMITS (planType p) \<and> usage p = \<lparr>items = 0, storage = 0\<rparr>
       \<and> canAddMore p = (enat (items (usage p)) < maxItems (limits p)) \<and> canAddMore p"
proof -
  note pos = maxItems_positive
  from assms show ?thesis
    by (auto simp: usage_handler_def Let_def pos zero_enat_def [symmetric]
        split: if_splits prod.splits sum.splits option.splits)
qed
section \<open>Claims about the storage actor\<close>

text \<open>
  C3, as the code has it. On an actor whose flag is unset and whose store holds no row
  other than the singleton, \<open>ensureInitialized\<close> succeeds and leaves exactly one
  TenantRecord, with the singleton id; running it again changes nothing, also when the
  flag has been lost. \<open>getStorageStats\<close> and \<open>setCreatorIfNotSet\<close> succeed and leave
  exactly one record. \<open>query\<close>, \<open>queryOne\<close> and \<open>exec\<close> behave as they do on the
  initialized actor; with one of the repository's statements they succeed and leave
  exactly one record.
\<close>

theorem lazy_init_one_record:
  assumes "\<not> initialized a" and "stray_free (sql a)"
  shows "\<exists>a0. ensureInitialized eng now a = (Inr (), a0) \<and> initialized a0 \<and> one_record a0
            \<and> ensureInitialized eng now' a0 = (Inr (), a0)
            \<and> ensureInitialized eng now' (a0\<lparr>initialized := False\<rparr>) = (Inr (), a0)
            \<and> (\<exists>n a'. getStorageStats eng now a = (Inr n, a') \<and> one_record a')
            \<and> (\<exists>a'. setCreatorIfNotSet eng userId email now a = (Inr (), a') \<and> one_record a')
            \<and> query eng s ps now a = query eng s ps now a0
            \<and> queryOne eng s ps now a = queryOne eng s ps now a0
            \<and> exec eng s ps now a = exec eng s ps now a0
            \<and> (prepare s (flatParams ps) \<noteq> None \<longrightarrow>
                 (\<exists>rows a'. query eng s ps now a = (Inr rows, a') \<and> one_record a')
               \<and> (\<exists>row a'. queryOne eng s ps now a = (Inr row, a') \<and> one_record a')
               \<and> (\<exists>a'. exec eng s ps now a = (Inr (), a') \<and> one_record a'))"
proof -
  let ?a0 = "initialize now a"
  have i: "initialized ?a0" by simp
  have o: "one_record ?a0" using assms by (simp add: one_record_initialize)
  have e1: "ensureInitialized eng now a = (Inr (), ?a0)" by (rule ensureInitialized_eq)
  have e2: "ensureInitialized eng now' ?a0 = (Inr (), ?a0)"
    by (simp add: ensureInitialized_eq)
  have "?a0\<lparr>initialized := True\<rparr> = ?a0" using i by simp
  then have e3: "ensureInitialized eng now' (?a0\<lparr>initialized := False\<rparr>) = (Inr (), ?a0)"
    using initialize_one_record [OF o, of now'] by (simp add: ensureInitialized_eq)
  have st: "\<exists>n a'. getStorageStats eng now a = (Inr n, a') \<and> one_record a'"
    using o by (simp add: getStorageStats_def e1)
  have sc: "\<exists>a'. setCreatorIfNotSet eng userId email now a = (Inr (), a') \<and> one_record a'"
    using setCreator_one_record [OF i o, of eng userId email now] setCreator_via_init [of eng userId email now a]
    by auto
  have q: "query eng s ps now a = query eng s ps now ?a0"
    by (rule query_via_init)
  have q1: "queryOne eng s ps now a = queryOne eng s ps now ?a0"
    by (simp add: queryOne_def q)
  have x: "exec eng s ps now a = exec eng s ps now ?a0"
    by (rule exec_via_init)
  have k: "prepare s (flatParams ps) \<noteq> None \<longrightarrow>
                 (\<exists>rows a'. query eng s ps now a = (Inr rows, a') \<and> one_record a')
               \<and> (\<exists>row a'. queryOne eng s ps now a = (Inr row, a') \<and> one_record a')
               \<and> (\<exists>a'. exec eng s ps now a = (Inr (), a') \<and> one_record a')"
  proof
    assume "prepare s (flatParams ps) \<noteq> None"
    then obtain st where p: "prepare s (flatParams ps) = Some st" by blast
    from query_one_record [OF i o p, of eng now]
    obtain rows a' where qq: "query eng s ps now ?a0 = (Inr rows, a')" "one_record a'" by blast
    have A: "\<exists>rows a'. query eng s ps now a = (Inr rows, a') \<and> one_record a'"
      using qq q by simp
    have B: "\<exists>row a'. queryOne eng s ps now a = (Inr row, a') \<and> one_record a'"
      using qq q by (simp add: queryOne_def)
    have C: "\<exists>a'. exec eng s ps now a = (Inr (), a') \<and> one_record a'"
      using exec_one_record [OF i o p, of eng now] x by simp
    from A B C show "(\<exists>rows a'. query eng s ps now a = (Inr rows, a') \<and> one_record a')
               \<and> (\<exists>row a'. queryOne eng s ps now a = (Inr row, a') \<and> one_record a')
               \<and> (\<exists>a'. exec eng s ps now a = (Inr (), a') \<and> one_record a')" by blast
  qed
  from e1 i o e2 e3 st sc q q1 x k show ?thesis by blast
qed

theorem lazy_init_one_record_witness:
  "\<not> initialized new_actor \<and> stray_free (sql new_actor)
   \<and> prepare SQL_SELECT_CUSTOMER (flatParams []) \<noteq> None
   \<and> (\<exists>a0. ensureInitialized sqlite_storage 1700000000123 new_actor = (Inr (), a0) \<and> one_record a0
           \<and> ensureInitialized sqlite_storage 1700000900456 a0 = (Inr (), a0))
   \<and> (\<exists>a'. setCreatorIfNotSet sqlite_storage ''user_1'' None 1700000000123 new_actor = (Inr (), a')
           \<and> one_record a')
   \<and> (\<exists>rows a'. query sqlite_storage SQL_SELECT_CUSTOMER [] 1700000000123 new_actor = (Inr rows, a')
           \<and> one_record a')"
proof -
  have h1: "\<not> initialized new_actor" by (simp add: new_actor_def)
  have h2: "stray_free (sql new_actor)" by (simp add: new_actor_def stray_free_def)
  have h3: "prepare SQL_SELECT_CUSTOMER (flatParams []) \<noteq> None"
    by (simp add: prepare_select_customer)
  from lazy_init_one_record [OF h1 h2, of sqlite_storage 1700000000123 1700000900456
      "''user_1''" None SQL_SELECT_CUSTOMER "[]"] h1 h2 h3
  show ?thesis by blast
qed

text \<open>
  C3 as stated fails: a statement the engine rejects makes \<open>query\<close> fail on a new actor,
  and a statement that deletes the rows leaves no TenantRecord after a successful
  \<open>exec\<close>.
\<close>

theorem lazy_init_query_can_fail:
  "fst (query sqlite_storage ''SELEC 1'' [] 1700000000123 new_actor) = Inl (SqlError ''SQL error'')
   \<and> exec sqlite_storage ''DELETE FROM organization_settings'' [] 1700000000123 new_actor
       = (Inr (), \<lparr>sql = Some [], initialized = True\<rparr>)
   \<and> \<not> one_record \<lparr>sql = Some [], initialized = True\<rparr>"
proof -
  have p1: "prepare ''SELEC 1'' [] = None"
    by (simp add: prepare_def SQL_CREATE_TABLE_def SQL_INSERT_DEFAULT_def SQL_SELECT_CREATOR_def
        SQL_UPDATE_CREATOR_def SQL_SELECT_CUSTOMER_def SQL_UPDATE_CUSTOMER_def)
  have p2: "prepare ''DELETE FROM organization_settings'' [] = None"
    by (simp add: prepare_def SQL_CREATE_TABLE_def SQL_INSERT_DEFAULT_def SQL_SELECT_CREATOR_def
        SQL_UPDATE_CREATOR_def SQL_SELECT_CUSTOMER_def SQL_UPDATE_CUSTOMER_def)
  have i: "initialize 1700000000123 new_actor = \<lparr>sql = Some [default_row 1700000000123], initialized = True\<rparr>"
    by (simp add: initialize_def new_actor_def init_rows_def)
  have A: "fst (query sqlite_storage ''SELEC 1'' [] 1700000000123 new_actor) = Inl (SqlError ''SQL error'')"
    by (simp add: query_def ensureInitialized_eq i sql_exec_def p1 sqlite_storage_def)
  have B: "exec sqlite_storage ''DELETE FROM organization_settings'' [] 1700000000123 new_actor
       = (Inr (), \<lparr>sql = Some [], initialized = True\<rparr>)"
    by (simp add: exec_def ensureInitialized_eq i sql_exec_def p2 sqlite_storage_def)
  have C: "\<not> one_record \<lparr>sql = Some [], initialized = True\<rparr>"
    by (simp add: one_record_def)
  from A B C show ?thesis by blast
qed

text \<open>
  C6, as the code has it. When the first call's \<open>userId\<close> is not the empty string, a
  second call of \<open>setCreatorIfNotSet\<close> with any other arguments returns the actor the
  first call left, unchanged; and when no creator was recorded before, the first call
  records its own \<open>userId\<close> and email.
\<close>

theorem setCreator_first_writer_wins:
  assumes "actor_ok a" and "userId1 \<noteq> []"
  shows "\<exists>a1. setCreatorIfNotSet eng userId1 email1 now1 a = (Inr (), a1)
            \<and> setCreatorIfNotSet eng userId2 email2 now2 a1 = (Inr (), a1)
            \<and> creator_recorded a1
            \<and> (\<not> creator_recorded a \<longrightarrow>
                 (\<exists>r. record_of a1 = Some r \<and> creator_user_id r = Some userId1
                     \<and> creator_email r = email_or_null email1))"
proof -
  let ?a0 = "initialize now1 a"
  from setCreator_ok [OF assms(1), of now1 eng userId1 email1] obtain rows where
    r: "sql ?a0 = Some rows" "singleton_rows rows \<noteq> []" and
    s: "setCreatorIfNotSet eng userId1 email1 now1 a =
          (Inr (), if creator_recorded a then ?a0
                   else ?a0\<lparr>sql := Some (update_singleton (write_creator userId1 email1 now1) rows)\<rparr>)"
    by blast
  define a1 where
    "a1 = (if creator_recorded a then ?a0
           else ?a0\<lparr>sql := Some (update_singleton (write_creator userId1 email1 now1) rows)\<rparr>)"
  from record_of_written [OF r, of userId1 email1 now1] obtain r0 where
    w: "record_of (?a0\<lparr>sql := Some (update_singleton (write_creator userId1 email1 now1) rows)\<rparr>)
          = Some (write_creator userId1 email1 now1 r0)" by blast
  have s1: "setCreatorIfNotSet eng userId1 email1 now1 a = (Inr (), a1)"
    using s by (simp add: a1_def)
  have rec: "creator_recorded a1"
  proof (cases "creator_recorded a")
    case True
    then show ?thesis by (simp add: a1_def creator_recorded_initialize)
  next
    case False
    then show ?thesis
      using w assms(2) by (simp add: a1_def creator_recorded_def write_creator_def)
  qed
  have i1: "initialized a1" by (simp add: a1_def)
  have ok1: "actor_ok a1"
    using rec by (auto simp: actor_ok_def creator_recorded_def split: option.splits)
  have init1: "initialize now2 a1 = a1"
    using i1 by (simp add: initialize_def)
  from setCreator_ok [OF ok1, of now2 eng userId2 email2] rec init1
  have s2: "setCreatorIfNotSet eng userId2 email2 now2 a1 = (Inr (), a1)"
    by auto
  have fresh: "\<not> creator_recorded a \<longrightarrow>
                 (\<exists>r. record_of a1 = Some r \<and> creator_user_id r = Some userId1
                     \<and> creator_email r = email_or_null email1)"
    using w by (simp add: a1_def write_creator_def)
  from s1 s2 rec fresh show ?thesis by blast
qed


theorem setCreator_first_writer_wins_witness:
  "actor_ok new_actor \<and> ''user_1'' \<noteq> [] \<and>
   (\<exists>a1. setCreatorIfNotSet sqlite_storage ''user_1'' (Some ''a@x.io'') 1700000000123 new_actor = (Inr (), a1)
      \<and> setCreatorIfNotSet sqlite_storage ''user_2'' (Some ''b@x.io'') 1700000900456 a1 = (Inr (), a1)
      \<and> (\<exists>r. record_of a1 = Some r \<and> creator_user_id r = Some ''user_1''
                \<and> creator_email r = Some ''a@x.io''))"
proof -
  have ok: "actor_ok new_actor" by (simp add: actor_ok_def new_actor_def)
  have ne: "''user_1'' \<noteq> []" by simp
  have nr: "\<not> creator_recorded new_actor"
    by (simp add: creator_recorded_def record_of_def new_actor_def)
  from setCreator_first_writer_wins [OF ok ne, of sqlite_storage "Some ''a@x.io''" 1700000000123
      "''user_2''" "Some ''b@x.io''" 1700000900456] nr ok
  show ?thesis by (auto simp: email_or_null_def)
qed

text \<open>
  C6 as stated fails for an empty first \<open>userId\<close>: the stored empty string does not pass
  the test \<^verbatim>\<open>!current?.creator_user_id\<close>, and the second call overwrites both the user id
  and the email that the first call recorded.
\<close>

theorem setCreator_empty_user_overwritten:
  "record_of (snd (setCreatorIfNotSet sqlite_storage [] (Some ''a@x.io'') 1700000000123 new_actor))
     = Some ((default_row 1700000000123)\<lparr>creator_user_id := Some [], creator_email := Some ''a@x.io''\<rparr>)
   \<and> record_of (snd (setCreatorIfNotSet sqlite_storage ''user_2'' (Some ''b@x.io'') 1700000900456
        (snd (setCreatorIfNotSet sqlite_storage [] (Some ''a@x.io'') 1700000000123 new_actor))))
     = Some ((default_row 1700000000123)\<lparr>creator_user_id := Some ''user_2'',
               creator_email := Some ''b@x.io'', updated_at := 1700000900\<rparr>)"
proof -
  have ok: "actor_ok new_actor" by (simp add: actor_ok_def new_actor_def)
  have nr: "\<not> creator_recorded new_actor"
    by (simp add: creator_recorded_def record_of_def new_actor_def)
  let ?a1 = "\<lparr>sql = Some [(default_row 1700000000123)\<lparr>creator_user_id := Some [], creator_email := Some ''a@x.io''\<rparr>],
              initialized = True\<rparr>"
  have s1: "setCreatorIfNotSet sqlite_storage [] (Some ''a@x.io'') 1700000000123 new_actor = (Inr (), ?a1)"
    using setCreator_ok [OF ok, of 1700000000123 sqlite_storage "[]" "Some ''a@x.io''"] nr
    by (simp add: initialize_def new_actor_def init_rows_def update_singleton_def write_creator_def
        default_row_def email_or_null_def epoch_def)
  have ok1: "actor_ok ?a1" by (simp add: actor_ok_def record_of_def singleton_rows_def default_row_def)
  have nr1: "\<not> creator_recorded ?a1"
    by (simp add: creator_recorded_def record_of_def singleton_rows_def default_row_def)
  have s2: "setCreatorIfNotSet sqlite_storage ''user_2'' (Some ''b@x.io'') 1700000900456 ?a1 =
     (Inr (), \<lparr>sql = Some [(default_row 1700000000123)\<lparr>creator_user_id := Some ''user_2'',
               creator_email := Some ''b@x.io'', updated_at := 1700000900\<rparr>], initialized = True\<rparr>)"
    using setCreator_ok [OF ok1, of 1700000900456 sqlite_storage "''user_2''" "Some ''b@x.io''"] nr1
    by (simp add: initialize_def update_singleton_def write_creator_def
        default_row_def email_or_null_def epoch_def)
  show ?thesis
    by (simp add: s1 s2 record_of_def singleton_rows_def)
qed

text \<open>
  C7, as the code has it. When the recorded \<^verbatim>\<open>creator_user_id\<close> is neither NULL nor the
  empty string, \<open>setCreatorIfNotSet\<close> succeeds and leaves the table, and so every field of
  the TenantRecord including \<open>updated_at\<close>, as it was. Otherwise it writes the creator
  fields, and \<open>updated_at\<close> becomes the current epoch second in that same write; no other
  field of the record changes.
\<close>

theorem setCreator_frame:
  assumes "actor_ok a"
  shows "(creator_recorded a \<longrightarrow>
            (\<exists>a'. setCreatorIfNotSet eng userId email now a = (Inr (), a')
                 \<and> sql a' = sql a \<and> record_of a' = record_of a))
       \<and> (\<not> creator_recorded a \<longrightarrow>
            (\<exists>a' r. setCreatorIfNotSet eng userId email now a = (Inr (), a')
                 \<and> record_of (initialize now a) = Some r
                 \<and> record_of a' = Some (r\<lparr>creator_user_id := Some userId,
                                          creator_email := email_or_null email,
                                          updated_at := epoch now\<rparr>)))"
proof -
  from setCreator_ok [OF assms, of now eng userId email] obtain rows where
    r: "sql (initialize now a) = Some rows" "singleton_rows rows \<noteq> []" and
    s: "setCreatorIfNotSet eng userId email now a =
          (Inr (), if creator_recorded a then initialize now a
                   else (initialize now a)\<lparr>sql := Some (update_singleton (write_creator userId email now) rows)\<rparr>)"
    by blast
  have keep: "creator_recorded a \<Longrightarrow> sql (initialize now a) = sql a"
    by (auto simp: creator_recorded_def record_of_def initialize_def init_rows_def
        split: option.splits list.splits)
  have A: "creator_recorded a \<longrightarrow>
            (\<exists>a'. setCreatorIfNotSet eng userId email now a = (Inr (), a')
                 \<and> sql a' = sql a \<and> record_of a' = record_of a)"
    using s keep by (auto simp: record_of_def)
  from record_of_written [OF r, of userId email now] obtain r0 where
    w: "record_of ((initialize now a)\<lparr>sql := Some (update_singleton (write_creator userId email now) rows)\<rparr>)
          = Some (write_creator userId email now r0)" "record_of (initialize now a) = Some r0" by blast
  have B: "\<not> creator_recorded a \<longrightarrow>
            (\<exists>a' r. setCreatorIfNotSet eng userId email now a = (Inr (), a')
                 \<and> record_of (initialize now a) = Some r
                 \<and> record_of a' = Some (r\<lparr>creator_user_id := Some userId,
                                          creator_email := email_or_null email,
                                          updated_at := epoch now\<rparr>))"
    using s w by (auto simp: write_creator_def)
  from A B show ?thesis by blast
qed

theorem setCreator_frame_witness:
  "actor_ok new_actor \<and> \<not> creator_recorded new_actor
   \<and> (\<exists>a'. setCreatorIfNotSet sqlite_storage ''user_1'' (Some ''a@x.io'') 1700000000123 new_actor = (Inr (), a')
          \<and> record_of a' = Some ((default_row 1700000000123)\<lparr>creator_user_id := Some ''user_1'',
                 creator_email := Some ''a@x.io'', updated_at := 1700000000\<rparr>))
   \<and> actor_ok \<lparr>sql = Some [(default_row 1600000000000)\<lparr>creator_user_id := Some ''user_1''\<rparr>],
                 initialized = False\<rparr>
   \<and> creator_recorded \<lparr>sql = Some [(default_row 1600000000000)\<lparr>creator_user_id := Some ''user_1''\<rparr>],
                 initialized = False\<rparr>
   \<and> (\<exists>a'. setCreatorIfNotSet sqlite_storage ''user_2'' (Some ''b@x.io'') 1700000000123
               \<lparr>sql = Some [(default_row 1600000000000)\<lparr>creator_user_id := Some ''user_1''\<rparr>],
                 initialized = False\<rparr> = (Inr (), a')
          \<and> sql a' = Some [(default_row 1600000000000)\<lparr>creator_user_id := Some ''user_1''\<rparr>])"
proof -
  let ?b = "\<lparr>sql = Some [(default_row 1600000000000)\<lparr>creator_user_id := Some ''user_1''\<rparr>],
             initialized = False\<rparr>"
  have ok: "actor_ok new_actor" by (simp add: actor_ok_def new_actor_def)
  have nr: "\<not> creator_recorded new_actor"
    by (simp add: creator_recorded_def record_of_def new_actor_def)
  have r0: "record_of (initialize 1700000000123 new_actor) = Some (default_row 1700000000123)"
    by (simp add: initialize_def new_actor_def init_rows_def record_of_def singleton_rows_def)
  have okb: "actor_ok ?b" by (simp add: actor_ok_def)
  have rb: "creator_recorded ?b"
    by (simp add: creator_recorded_def record_of_def singleton_rows_def)
  have e: "email_or_null (Some ''a@x.io'') = Some ''a@x.io''" "epoch 1700000000123 = 1700000000"
    by (simp_all add: email_or_null_def epoch_def)
  from setCreator_frame [OF ok, of sqlite_storage "''user_1''" "Some ''a@x.io''" 1700000000123] nr r0 e
  have A: "\<exists>a'. setCreatorIfNotSet sqlite_storage ''user_1'' (Some ''a@x.io'') 1700000000123 new_actor = (Inr (), a')
          \<and> record_of a' = Some ((default_row 1700000000123)\<lparr>creator_user_id := Some ''user_1'',
                 creator_email := Some ''a@x.io'', updated_at := 1700000000\<rparr>)"
    by auto
  from setCreator_frame [OF okb, of sqlite_storage "''user_2''" "Some ''b@x.io''" 1700000000123] rb
  have B: "\<exists>a'. setCreatorIfNotSet sqlite_storage ''user_2'' (Some ''b@x.io'') 1700000000123 ?b = (Inr (), a')
          \<and> sql a' = Some [(default_row 1600000000000)\<lparr>creator_user_id := Some ''user_1''\<rparr>]"
    by auto
  from ok nr A okb rb B show ?thesis by blast
qed

text \<open>
  C7 as stated fails on a record whose creator was recorded with an empty user id: the
  record holds a creator (user id and email are not NULL), yet the call is not a no-op,
  it overwrites the user id, the email and \<open>updated_at\<close>.
\<close>

theorem setCreator_overwrites_empty_creator:
  "record_of \<lparr>sql = Some [(default_row 1600000000000)\<lparr>creator_user_id := Some [],
                                creator_email := Some ''a@x.io''\<rparr>],
              initialized = True\<rparr>
     = Some \<lparr>row_id = 1, stripe_customer_id = None, creator_user_id = Some [],
             creator_email = Some ''a@x.io'', created_at = 1600000000, updated_at = 1600000000\<rparr>
   \<and> setCreatorIfNotSet sqlite_storage ''user_2'' (Some ''b@x.io'') 1700000900456
        \<lparr>sql = Some [(default_row 1600000000000)\<lparr>creator_user_id := Some [],
                                creator_email := Some ''a@x.io''\<rparr>],
         initialized = True\<rparr>
     = (Inr (),
        \<lparr>sql = Some [\<lparr>row_id = 1, stripe_customer_id = None, creator_user_id = Some ''user_2'',
                       creator_email = Some ''b@x.io'', created_at = 1600000000,
                       updated_at = 1700000900\<rparr>],
         initialized = True\<rparr>)"
proof -
  let ?b = "\<lparr>sql = Some [(default_row 1600000000000)\<lparr>creator_user_id := Some [],
                                creator_email := Some ''a@x.io''\<rparr>],
             initialized = True\<rparr>"
  have e: "epoch 1600000000000 = 1600000000" "epoch 1700000900456 = 1700000900"
    by (simp_all add: epoch_def)
  have A: "record_of ?b
     = Some \<lparr>row_id = 1, stripe_customer_id = None, creator_user_id = Some [],
             creator_email = Some ''a@x.io'', created_at = 1600000000, updated_at = 1600000000\<rparr>"
    by (simp add: record_of_def singleton_rows_def default_row_def e)
  have okb: "actor_ok ?b" by (simp add: actor_ok_def A)
  have nrb: "\<not> creator_recorded ?b" by (simp add: creator_recorded_def A)
  have B: "setCreatorIfNotSet sqlite_storage ''user_2'' (Some ''b@x.io'') 1700000900456 ?b
     = (Inr (),
        \<lparr>sql = Some [\<lparr>row_id = 1, stripe_customer_id = None, creator_user_id = Some ''user_2'',
                       creator_email = Some ''b@x.io'', created_at = 1600000000,
                       updated_at = 1700000900\<rparr>],
         initialized = True\<rparr>)"
    using setCreator_ok [OF okb, of 1700000900456 sqlite_storage "''user_2''" "Some ''b@x.io''"] nrb
    by (simp add: initialize_def update_singleton_def write_creator_def default_row_def
        email_or_null_def e)
  from A B show ?thesis by blast
qed

text \<open>
  C10, as the code has it. When the list \<open>ps\<close> is not itself a one-element list holding
  an array (in particular when every element is a string, a number or null), calling
  \<open>query\<close>, \<open>queryOne\<close> or \<open>exec\<close> with the single array argument \<open>ps\<close> gives the same outcome
  and the same store as calling it with the elements of \<open>ps\<close> as individual arguments.
\<close>

theorem flatten_lone_array:
  assumes "\<not> lone_array ps"
  shows "query eng s [JArr ps] now a = query eng s ps now a
       \<and> exec eng s [JArr ps] now a = exec eng s ps now a
       \<and> queryOne eng s [JArr ps] now a = queryOne eng s ps now a"
proof -
  have e: "flatParams [JArr ps] = flatParams ps"
    using assms by (simp add: flatParams_not_lone)
  show ?thesis
    by (simp only: query_def exec_def queryOne_def e)
qed


theorem flatten_lone_array_witness:
  "\<not> lone_array [JStr ''cus_abc'']
   \<and> query sqlite_storage SQL_UPDATE_CUSTOMER [JArr [JStr ''cus_abc'']] 0 new_actor
       = query sqlite_storage SQL_UPDATE_CUSTOMER [JStr ''cus_abc''] 0 new_actor
   \<and> record_of (snd (query sqlite_storage SQL_UPDATE_CUSTOMER [JArr [JStr ''cus_abc'']] 0 new_actor))
       = Some ((default_row 0)\<lparr>stripe_customer_id := Some ''cus_abc''\<rparr>)"
proof -
  have h: "\<not> lone_array [JStr ''cus_abc'']" by (simp add: lone_array_def)
  have r: "record_of (snd (query sqlite_storage SQL_UPDATE_CUSTOMER [JStr ''cus_abc''] 0 new_actor))
       = Some ((default_row 0)\<lparr>stripe_customer_id := Some ''cus_abc''\<rparr>)"
    by (simp add: query_def ensureInitialized_eq initialize_def new_actor_def init_rows_def
        sql_exec_def prepare_update_customer record_of_def singleton_rows_def update_singleton_def
        default_row_def)
  from flatten_lone_array [OF h, of sqlite_storage SQL_UPDATE_CUSTOMER 0 new_actor] h r
  show ?thesis by simp
qed

text \<open>
  C10 as stated fails when \<open>ps\<close> is a one-element list holding an array: passed as the
  single array argument it is flattened once and reaches the engine as one binding,
  passed as individual arguments its only element is flattened and reaches the engine as
  three bindings, which the three placeholders of the statement need.
\<close>

theorem flatten_nested_array_differs:
  "fst (query sqlite_storage SQL_UPDATE_CREATOR [JArr [JArr [JStr ''user_1'', JNull, JNum 5]]] 0 new_actor)
     = Inl (SqlError ''SQL error'')
   \<and> fst (query sqlite_storage SQL_UPDATE_CREATOR [JArr [JStr ''user_1'', JNull, JNum 5]] 0 new_actor)
     = Inr []"
proof -
  have p: "prepare SQL_UPDATE_CREATOR [JStr ''user_1'', JNull, JNum 5] = Some (UpdateCreator (Some ''user_1'') None 5)"
    using prepare_update_creator [of "''user_1''" None 5] by simp
  have q: "exec_other sqlite_storage SQL_UPDATE_CREATOR [JArr [JStr ''user_1'', JNull, JNum 5]] 0 d
             = Inl (SqlError ''SQL error'')" for d
    by (simp add: sqlite_storage_def SQL_UPDATE_CREATOR_def)
  show ?thesis
    by (simp add: query_def ensureInitialized_eq initialize_def new_actor_def init_rows_def
        sql_exec_def prepare_update_creator_arity p q)
qed

section \<open>Claims about billing reconciliation\<close>

text \<open>
  C1. \<open>getSubscriptionPlanType\<close> answers FREE when the subscription listing of the
  billing provider fails with any error, answers FREE when the customer has no active
  subscription, and in every case returns a plan: no error of the provider leaves it.
\<close>

theorem getSubscriptionPlanType_fallback:
  "(active_subscriptions stripe customerId = Inl e \<longrightarrow>
      getSubscriptionPlanType stripe customerId = Inr FREE)
   \<and> (active_subscriptions stripe customerId = Inr [] \<longrightarrow>
      getSubscriptionPlanType stripe customerId = Inr FREE)
   \<and> (\<exists>plan. getSubscriptionPlanType stripe customerId = Inr plan)"
  by (cases "active_subscriptions stripe customerId")
     (simp_all add: getSubscriptionPlanType_def subscriptions_list_def try_catch_def)

theorem getSubscriptionPlanType_fallback_witness:
  "active_subscriptions stripe_down ''cus_abc'' = Inl (StripeError ''connection refused'')
   \<and> getSubscriptionPlanType stripe_down ''cus_abc'' = Inr FREE
   \<and> active_subscriptions stripe_test ''cus_abc'' = Inr []
   \<and> getSubscriptionPlanType stripe_test ''cus_abc'' = Inr FREE"
proof -
  have h1: "active_subscriptions stripe_down ''cus_abc'' = Inl (StripeError ''connection refused'')"
    by (simp add: stripe_down_def)
  have h2: "active_subscriptions stripe_test ''cus_abc'' = Inr []"
    by (simp add: stripe_test_def)
  from getSubscriptionPlanType_fallback [of stripe_down "''cus_abc''" "StripeError ''connection refused''"]
    getSubscriptionPlanType_fallback [of stripe_test "''cus_abc''"] h1 h2
  show ?thesis by simp
qed

text \<open>
  C2. When the TenantRecord holds a billing customer id, \<open>getOrCreateStripeCustomer\<close>
  returns it and leaves the billing provider untouched: no create call. When a call
  returns a (non-empty) id, the tenant's record holds that id afterwards, at most one
  create call was made, and a second call for the same tenant returns the same id and
  leaves both the billing provider and the store as they were.
\<close>

theorem resolveBillingCustomer_idempotent:
  assumes "actor_ok stub"
  shows "(customer_of stub = Some c \<longrightarrow>
            getOrCreateStripeCustomer eng clerk now stripe stub organizationId uid key
              = (Inr c, stripe, initialize now stub))
       \<and> (getOrCreateStripeCustomer eng clerk now stripe stub organizationId uid key
              = (Inr customerId, stripe1, stub1) \<and> customerId \<noteq> [] \<longrightarrow>
            customer_of stub1 = Some customerId
            \<and> length (create_calls stripe1) \<le> length (create_calls stripe) + 1
            \<and> getOrCreateStripeCustomer eng clerk' now' stripe1 stub1 organizationId uid' key'
                = (Inr customerId, stripe1, stub1))"
proof -
  note ch = getOrCreate_char [OF assms, of eng clerk now stripe organizationId uid key]
  have A: "customer_of stub = Some c \<longrightarrow>
            getOrCreateStripeCustomer eng clerk now stripe stub organizationId uid key
              = (Inr c, stripe, initialize now stub)"
    using ch by simp
  have B: "customer_of stub1 = Some customerId
            \<and> length (create_calls stripe1) \<le> length (create_calls stripe) + 1
            \<and> getOrCreateStripeCustomer eng clerk' now' stripe1 stub1 organizationId uid' key'
                = (Inr customerId, stripe1, stub1)"
    if g: "getOrCreateStripeCustomer eng clerk now stripe stub organizationId uid key
              = (Inr customerId, stripe1, stub1)" and ne: "customerId \<noteq> []"
  proof -
    have ok0: "actor_ok (initialize now stub)" using assms by (rule actor_ok_initialize)
    have c1: "customer_of stub1 = Some customerId \<and> actor_ok stub1 \<and> initialize now' stub1 = stub1
              \<and> length (create_calls stripe1) \<le> length (create_calls stripe) + 1"
    proof (cases "customer_of stub")
      case (Some c0)
      with ch g have "customerId = c0" "stripe1 = stripe" "stub1 = initialize now stub" by simp_all
      with Some ok0 show ?thesis by (simp add: customer_of_initialize)
    next
      case None
      with ch g have "stub1 = store_customer customerId (initialize now stub)"
        "length (create_calls stripe1) \<le> length (create_calls stripe) + 1"
        by (auto split: sum.splits)
      with customer_of_store [OF ok0 initialized_initialize ne] show ?thesis by simp
    qed
    then have ok1: "actor_ok stub1" by simp
    from getOrCreate_char [OF ok1, of eng clerk' now' stripe1 organizationId uid' key'] c1
    show ?thesis by simp
  qed
  from A B show ?thesis by blast
qed

theorem resolveBillingCustomer_idempotent_witness:
  "actor_ok new_actor \<and> ''cus_abc'' \<noteq> []
   \<and> (\<exists>stripe1 stub1.
         getOrCreateStripeCustomer sqlite_storage clerk_down 1700000000123 stripe_test new_actor
             ''org_1'' ''user_1'' None = (Inr ''cus_abc'', stripe1, stub1)
       \<and> customer_of stub1 = Some ''cus_abc''
       \<and> length (create_calls stripe1) = 1
       \<and> getOrCreateStripeCustomer sqlite_storage clerk_down 1700000900456 stripe1 stub1
             ''org_1'' ''user_1'' None = (Inr ''cus_abc'', stripe1, stub1))"
proof -
  have ok: "actor_ok new_actor" by (simp add: actor_ok_def new_actor_def)
  have c: "customer_of new_actor = None"
    by (simp add: customer_of_def record_of_def new_actor_def)
  obtain stripe1 stub1 where
    g: "getOrCreateStripeCustomer sqlite_storage clerk_down 1700000000123 stripe_test new_actor
          ''org_1'' ''user_1'' None = (Inr ''cus_abc'', stripe1, stub1)"
    and l: "length (create_calls stripe1) = 1"
    using getOrCreate_char [OF ok, of sqlite_storage clerk_down 1700000000123 stripe_test "''org_1''" "''user_1''" None] c
    by (simp add: stripe_test_def)
  have ne: "''cus_abc'' \<noteq> []" by simp
  from resolveBillingCustomer_idempotent [OF ok, of _ sqlite_storage clerk_down 1700000000123 stripe_test
      "''org_1''" "''user_1''" None "''cus_abc''" stripe1 stub1 clerk_down 1700000900456 "''user_1''" None] g ne
  have "customer_of stub1 = Some ''cus_abc''
       \<and> getOrCreateStripeCustomer sqlite_storage clerk_down 1700000900456 stripe1 stub1
             ''org_1'' ''user_1'' None = (Inr ''cus_abc'', stripe1, stub1)"
    by simp
  with ok ne g l show ?thesis by blast
qed

text \<open>
  C8, as the code has it. For an authenticated tenant with the billing key configured,
  the usage handler answers 200 with the limits of the resolved plan, the fixed usage
  \<^verbatim>\<open>{ items: 0, storage: 0 }\<close>, and \<open>canAddMore\<close> equal to the comparison
  \<^verbatim>\<open>usage.items < limits.maxItems\<close>, which is therefore true.
\<close>

theorem usage_canAddMore:
  assumes "tenant_of vars \<noteq> []" and "truthy_str (STRIPE_SECRET_KEY env)"
    and "actor_ok (ns (tenant_of vars))"
  shows "\<exists>p ns'. usage_handler eng now stripe env vars ns = ((Summary p, 200), ns')
           \<and> planType p = (case customer_of (ns (tenant_of vars)) of
                             None \<Rightarrow> FREE
                           | Some c \<Rightarrow> (case getSubscriptionPlanType stripe c of Inr plan \<Rightarrow> plan | Inl e \<Rightarrow> FREE))
           \<and> limits p = PLAN_LIMITS (planType p)
           \<and> usage p = \<lparr>items = 0, storage = 0\<rparr>
           \<and> canAddMore p = (enat (items (usage p)) < maxItems (limits p))
           \<and> canAddMore p"
proof -
  from select_customer [OF assms(3), of eng now] obtain rows where
    q: "query eng SQL_SELECT_CUSTOMER [] now (ns (tenant_of vars)) = (Inr rows, initialize now (ns (tenant_of vars)))"
    and e: "existing_customer rows = customer_of (ns (tenant_of vars))" by blast
  note pos = maxItems_positive
  obtain plan where g: "(case customer_of (ns (tenant_of vars)) of None \<Rightarrow> Inr FREE
                         | Some c \<Rightarrow> getSubscriptionPlanType stripe c) = Inr plan"
    using getSubscriptionPlanType_total by (cases "customer_of (ns (tenant_of vars))") auto
  show ?thesis
    using assms(1,2) g
    by (auto simp: usage_handler_def Let_def q e pos zero_enat_def [symmetric] split: option.splits)
qed

theorem usage_canAddMore_witness:
  "tenant_of vars_test \<noteq> [] \<and> truthy_str (STRIPE_SECRET_KEY env_test)
   \<and> actor_ok ((\<lambda>t. new_actor) (tenant_of vars_test))
   \<and> (\<exists>p ns'. usage_handler sqlite_storage 1700000000123 stripe_test env_test vars_test (\<lambda>t. new_actor)
                  = ((Summary p, 200), ns')
         \<and> planType p = FREE \<and> maxItems (limits p) = 10 \<and> items (usage p) = 0 \<and> canAddMore p)"
proof -
  have h1: "tenant_of vars_test \<noteq> []" by (simp add: tenant_of_def vars_test_def)
  have h2: "truthy_str (STRIPE_SECRET_KEY env_test)" by (simp add: env_test_def)
  have h3: "actor_ok ((\<lambda>t. new_actor) (tenant_of vars_test))"
    by (simp add: actor_ok_def new_actor_def)
  have c: "customer_of new_actor = None"
    by (simp add: customer_of_def record_of_def new_actor_def)
  from usage_canAddMore [OF h1 h2 h3, of sqlite_storage 1700000000123 stripe_test] c
  have "\<exists>p ns'. usage_handler sqlite_storage 1700000000123 stripe_test env_test vars_test (\<lambda>t. new_actor)
                  = ((Summary p, 200), ns')
         \<and> planType p = FREE \<and> maxItems (limits p) = 10 \<and> items (usage p) = 0 \<and> canAddMore p"
    by auto
  with h1 h2 h3 show ?thesis by blast
qed

text \<open>
  C8 as stated fails: the usage is not read from the Storage Actor, and no input makes
  the handler report ten items or answer that no more can be added.
\<close>

theorem usage_never_refuses:
  "\<not> (\<exists>eng now stripe env vars ns p st ns'.
         usage_handler eng now stripe env vars ns = ((Summary p, st), ns')
         \<and> (items (usage p) = 10 \<or> \<not> canAddMore p))"
  using usage_handler_summary by fastforce

section \<open>Claims about authentication\<close>

text \<open>
  C4. \<open>clerkAuth\<close> answers 401 when the Authorization header is missing or does not
  start with the bearer scheme; when verification of the token throws, whatever the
  exception, it answers 401 with the one generic message; and the context variables are
  set only when verification has succeeded, from the verified payload.
\<close>

theorem clerkAuth_fail_closed:
  "(\<not> bearer (authorization req) \<longrightarrow>
      clerkAuth verify env req next
        = (JsonError ''Unauthorized: Missing or invalid Authorization header'' 401, None))
   \<and> (bearer (authorization req) \<and> truthy_str (CLERK_ISSUER_URL env)
        \<and> verify (drop 7 (the (authorization req))) (the (CLERK_ISSUER_URL env)) = Inl e \<longrightarrow>
      clerkAuth verify env req next = (JsonError ''Unauthorized: Invalid token'' 401, None))
   \<and> (snd (clerkAuth verify env req next) = Some vars \<longrightarrow>
      bearer (authorization req)
      \<and> (\<exists>payload. verify (drop 7 (the (authorization req))) (the (CLERK_ISSUER_URL env)) = Inr payload
            \<and> vars = \<lparr>var_userId = sub payload, var_orgId = or_none (org_id payload),
                       var_orgRole = or_none (org_role payload)\<rparr>))"
  by (auto simp: clerkAuth_def bearer_def Let_def split: option.splits sum.splits if_splits)

theorem clerkAuth_fail_closed_witness:
  "\<not> bearer (authorization \<lparr>path = ''/api/billing/usage'', authorization = Some ''Basic abc'', x_internal_token = None\<rparr>)
   \<and> clerkAuth verify_test env_test
        \<lparr>path = ''/api/billing/usage'', authorization = Some ''Basic abc'', x_internal_token = None\<rparr> echo
        = (JsonError ''Unauthorized: Missing or invalid Authorization header'' 401, None)
   \<and> bearer (authorization \<lparr>path = ''/api/billing/usage'', authorization = Some ''Bearer bad'', x_internal_token = None\<rparr>)
   \<and> clerkAuth verify_test env_test
        \<lparr>path = ''/api/billing/usage'', authorization = Some ''Bearer bad'', x_internal_token = None\<rparr> echo
        = (JsonError ''Unauthorized: Invalid token'' 401, None)
   \<and> snd (clerkAuth verify_test env_test
        \<lparr>path = ''/api/billing/usage'', authorization = Some ''Bearer good'', x_internal_token = None\<rparr> echo)
        = Some \<lparr>var_userId = ''user_1'', var_orgId = Some ''org_1'', var_orgRole = Some ''org:admin''\<rparr>
   \<and> verify_test ''good'' ''https://clerk.example''
        = Inr \<lparr>sub = ''user_1'', org_id = Some ''org_1'', org_role = Some ''org:admin''\<rparr>"
proof -
  let ?r1 = "\<lparr>path = ''/api/billing/usage'', authorization = Some ''Basic abc'', x_internal_token = None\<rparr>"
  let ?r2 = "\<lparr>path = ''/api/billing/usage'', authorization = Some ''Bearer bad'', x_internal_token = None\<rparr>"
  let ?r3 = "\<lparr>path = ''/api/billing/usage'', authorization = Some ''Bearer good'', x_internal_token = None\<rparr>"
  have h1: "\<not> bearer (authorization ?r1)" by (simp add: bearer_def startsWith_def)
  have h2: "bearer (authorization ?r2)" by (simp add: bearer_def startsWith_def)
  have h3: "truthy_str (CLERK_ISSUER_URL env_test)" by (simp add: env_test_def)
  have h4: "verify_test (drop 7 (the (authorization ?r2))) (the (CLERK_ISSUER_URL env_test))
              = Inl (JoseError ''signature verification failed'')"
    by (simp add: verify_test_def env_test_def)
  have h5: "snd (clerkAuth verify_test env_test ?r3 echo)
        = Some \<lparr>var_userId = ''user_1'', var_orgId = Some ''org_1'', var_orgRole = Some ''org:admin''\<rparr>"
    by (simp add: clerkAuth_def startsWith_def env_test_def verify_test_def echo_def or_none_def Let_def)
  have h6: "verify_test ''good'' ''https://clerk.example''
        = Inr \<lparr>sub = ''user_1'', org_id = Some ''org_1'', org_role = Some ''org:admin''\<rparr>"
    by (simp add: verify_test_def)
  from clerkAuth_fail_closed [of ?r1 verify_test env_test echo]
    clerkAuth_fail_closed [of ?r2 verify_test env_test echo "JoseError ''signature verification failed''"]
    clerkAuth_fail_closed [of ?r3 verify_test env_test echo _
      "\<lparr>var_userId = ''user_1'', var_orgId = Some ''org_1'', var_orgRole = Some ''org:admin''\<rparr>"]
    h1 h2 h3 h4 h5 h6
  show ?thesis by blast
qed

text \<open>
  C5. A token of \<open>generateInternalToken\<close> is signed with the internal secret and its
  expiration is 3600 seconds after the clock reading of \<^verbatim>\<open>setExpirationTime\<close>: exactly one
  hour after the issue time when both readings agree, at least one hour when the second
  is later. \<open>internalAuth\<close> answers 401 for every signed token whose expiration is not
  after the current second, whatever key signed it; a minted token is accepted before
  the hour has passed and rejected from then on.
\<close>

theorem internal_token_expiry:
  "(\<exists>c. generateInternalToken env now_iat now_exp organizationId uid = Signed ''HS256'' c (internal_secret env)
         \<and> claim_orgId c = organizationId \<and> claim_userId c = uid
         \<and> claim_iat c = Some (epoch now_iat) \<and> claim_exp c = Some (epoch now_exp + 3600)
         \<and> (now_iat = now_exp \<longrightarrow> claim_exp c = Some (the (claim_iat c) + 3600))
         \<and> (now_iat \<le> now_exp \<longrightarrow> the (claim_iat c) + 3600 \<le> the (claim_exp c)))
   \<and> (x_internal_token req = Some (Signed alg c k) \<and> claim_exp c = Some e \<and> e \<le> epoch now \<longrightarrow>
         internalAuth env now req next = (JsonError ''Unauthorized: Invalid internal token'' 401, None))
   \<and> (x_internal_token req = Some (generateInternalToken env t t organizationId uid) \<longrightarrow>
         internalAuth env now req next =
           (if epoch t + 3600 \<le> epoch now
            then (JsonError ''Unauthorized: Invalid internal token'' 401, None)
            else (case next \<lparr>var_userId = uid, var_orgId = Some organizationId, var_orgRole = None\<rparr> of
                    Inl error \<Rightarrow> (JsonError ''Unauthorized: Invalid internal token'' 401,
                                  Some \<lparr>var_userId = uid, var_orgId = Some organizationId, var_orgRole = None\<rparr>)
                  | Inr r \<Rightarrow> (Downstream r,
                              Some \<lparr>var_userId = uid, var_orgId = Some organizationId, var_orgRole = None\<rparr>))))"
  by (auto simp: generateInternalToken_def sign_def setExpirationTime_def setIssuedAt_def SignJWT_def
      internalAuth_def jwtVerify_def epoch_def zdiv_mono1 split: sum.splits)

theorem internal_token_expiry_witness:
  "x_internal_token \<lparr>path = ''/internal'', authorization = None,
       x_internal_token = Some (generateInternalToken env_test 1700000000123 1700000000123 ''org_1'' ''user_1'')\<rparr>
     = Some (generateInternalToken env_test 1700000000123 1700000000123 ''org_1'' ''user_1'')
   \<and> internalAuth env_test 1700003600123
        \<lparr>path = ''/internal'', authorization = None,
         x_internal_token = Some (generateInternalToken env_test 1700000000123 1700000000123 ''org_1'' ''user_1'')\<rparr>
        echo
       = (JsonError ''Unauthorized: Invalid internal token'' 401, None)
   \<and> internalAuth env_test 1700003599999
        \<lparr>path = ''/internal'', authorization = None,
         x_internal_token = Some (generateInternalToken env_test 1700000000123 1700000000123 ''org_1'' ''user_1'')\<rparr>
        echo
       = (Downstream ''org_1'',
          Some \<lparr>var_userId = ''user_1'', var_orgId = Some ''org_1'', var_orgRole = None\<rparr>)"
proof -
  let ?tok = "generateInternalToken env_test 1700000000123 1700000000123 ''org_1'' ''user_1''"
  let ?req = "\<lparr>path = ''/internal'', authorization = None, x_internal_token = Some ?tok\<rparr>"
  have h: "x_internal_token ?req = Some ?tok" by simp
  have e: "epoch 1700000000123 = 1700000000" "epoch 1700003600123 = 1700003600"
    "epoch 1700003599999 = 1700003599"
    by (simp_all add: epoch_def)
  have n: "echo \<lparr>var_userId = ''user_1'', var_orgId = Some ''org_1'', var_orgRole = None\<rparr> = Inr ''org_1''"
    by (simp add: echo_def tenant_of_def)
  from internal_token_expiry [of env_test 1700000000123 1700000000123 "''org_1''" "''user_1''"
      ?req _ _ _ _ 1700003600123 echo 1700000000123] h e
  have A: "internalAuth env_test 1700003600123 ?req echo
       = (JsonError ''Unauthorized: Invalid internal token'' 401, None)"
    by simp
  from internal_token_expiry [of env_test 1700000000123 1700000000123 "''org_1''" "''user_1''"
      ?req _ _ _ _ 1700003599999 echo 1700000000123] h e n
  have B: "internalAuth env_test 1700003599999 ?req echo
       = (Downstream ''org_1'',
          Some \<lparr>var_userId = ''user_1'', var_orgId = Some ''org_1'', var_orgRole = None\<rparr>)"
    by simp
  from h A B show ?thesis by blast
qed




end
